theory Spec2Isabelle
  imports Complex_Main "HOL-Library.Multiset"
begin

section \<open>Python values used by \<open>src/data/components/ai4eps.py\<close>\<close>

text \<open>
  Exceptions are values. \<open>IndexError\<close>, \<open>KeyError\<close> and \<open>ValueError\<close> are raised by list
  indexing, by the HDF5 lookup and by \<open>min\<close> of an empty list; \<open>RuntimeError\<close> is what
  \<open>torch.tensor\<close> raises for an integer outside 64 bits; \<open>OverflowError\<close> is what \<open>int\<close>
  raises for an infinite float; \<open>HookError\<close> stands for whatever a caller-supplied transform
  raises.
\<close>

datatype error = IndexError | KeyError | ValueError | RuntimeError | OverflowError | HookError

text \<open>\<open>xs[i]\<close> on a Python list: a negative index counts from the end.\<close>

definition py_getitem :: "'a list \<Rightarrow> int \<Rightarrow> error + 'a" where
  "py_getitem xs i =
     (if 0 \<le> i \<and> i < int (length xs) then Inr (xs ! nat i)
      else if i < 0 \<and> 0 \<le> i + int (length xs) then Inr (xs ! nat (i + int (length xs)))
      else Inl IndexError)"

text \<open>
  A slice bound of \<open>xs[start:stop]\<close> for a sequence of \<open>n\<close> elements: a negative bound has
  \<open>n\<close> added, and the result is clamped to \<open>0..n\<close>. A slice never raises.
\<close>

definition slice_bound :: "nat \<Rightarrow> int \<Rightarrow> nat" where
  "slice_bound n i = (if i < 0 then nat (max 0 (i + int n)) else min (nat i) n)"

definition py_slice :: "int \<Rightarrow> int \<Rightarrow> 'a list \<Rightarrow> 'a list" where
  "py_slice start stop xs =
     (let lo = slice_bound (length xs) start;
          hi = slice_bound (length xs) stop
      in take (hi - lo) (drop lo xs))"

text \<open>\<open>min(xs)\<close>: \<open>ValueError\<close> on the empty list.\<close>

fun py_min :: "int list \<Rightarrow> error + int" where
  "py_min [] = Inl ValueError"
| "py_min (x # xs) = Inr (fold min xs x)"

text \<open>\<open>xs.index(x)\<close>: the position of the first element equal to \<open>x\<close>.\<close>

fun py_list_index :: "'a list \<Rightarrow> 'a \<Rightarrow> error + nat" where
  "py_list_index [] x = Inl ValueError"
| "py_list_index (y # ys) x =
     (if y = x then Inr 0
      else (case py_list_index ys x of Inl e \<Rightarrow> Inl e | Inr k \<Rightarrow> Inr (Suc k)))"

text \<open>\<open>torch.tensor\<close> of a list of Python integers is an int64 tensor.\<close>

definition int64 :: "int \<Rightarrow> bool" where
  "int64 i = (- (2 ^ 63) \<le> i \<and> i < 2 ^ 63)"

definition torch_tensor :: "int list \<Rightarrow> error + int list" where
  "torch_tensor xs = (if list_all int64 xs then Inr xs else Inl RuntimeError)"

section \<open>The waveform store and the sample\<close>

text \<open>
  One HDF5 dataset \<open>f[event_id][station_id]\<close>: the channel-by-time matrix (a list of
  channel rows; amplitudes are taken as reals) and the three attributes the code reads.
\<close>

record h5dataset =
  waveform :: "real list list"
  attrs_network :: string
  attrs_phase_index :: "int list"
  attrs_phase_type :: "string list"

type_synonym h5file = "string \<rightharpoonup> (string \<rightharpoonup> h5dataset)"

text \<open>
  The sample dictionary. \<open>start_index\<close> and \<open>end_index\<close> are keys that \<open>__getitem__\<close> pops
  at the end (\<open>None\<close> is the absent key); \<open>label\<close> is set by \<open>generate_label\<close> and holds
  \<open>[]\<close> before that.
\<close>

record sample =
  event_id :: string
  network :: string
  station_id :: string
  data :: "real list list"
  phase_index :: "int list"
  phase_type :: "string list"
  start_index :: "int option"
  end_index :: "int option"
  label :: "real list list"

datatype label_shape = Gaussian | Triangle

text \<open>
  The fields \<open>__init__\<close> stores. The HDF5 handle is opened read-only on first use of the
  \<open>handler\<close> property and kept; the functions below take the content of that file as an
  argument.
\<close>

record dataset =
  transform :: "(sample \<Rightarrow> error + sample) option"
  label_shape :: label_shape
  label_width_in_npts :: int
  window_length_in_npts :: int
  phases :: "string list"
  first_arrival_index_in_final_window_if_no_shift :: int
  random_stack_two_waveforms_ratio :: real
  h5py_path :: "string list"
  index_to_waveform_id :: "(string \<times> string) list"

text \<open>
  \<open>Ai4epsDataset.__init__\<close>: every argument is stored as given; nothing is checked. A
  path is the list of its components, so that \<open>data_dir / "waveform.h5"\<close> appends one.
\<close>

definition Ai4epsDataset_init ::
  "string list \<Rightarrow> (string \<times> string) list \<Rightarrow> (sample \<Rightarrow> error + sample) option \<Rightarrow> label_shape \<Rightarrow>
   int \<Rightarrow> int \<Rightarrow> string list \<Rightarrow> int \<Rightarrow> real \<Rightarrow> error + dataset" where
  "Ai4epsDataset_init data_dir idx_to_id tr shape width window phs first_arrival ratio =
     Inr \<lparr> transform = tr,
           label_shape = shape,
           label_width_in_npts = width,
           window_length_in_npts = window,
           phases = phs,
           first_arrival_index_in_final_window_if_no_shift = first_arrival,
           random_stack_two_waveforms_ratio = ratio,
           h5py_path = data_dir @ [''waveform.h5''],
           index_to_waveform_id = idx_to_id \<rparr>"

text \<open>\<open>__len__\<close>.\<close>

definition len :: "dataset \<Rightarrow> int" where
  "len ds = int (length (index_to_waveform_id ds))"

section \<open>The helpers of \<open>src/data/components/utils\<close>\<close>

text \<open>
  \<open>generate_label\<close>, \<open>normalize_waveform\<close> and \<open>stack_rand\<close> are imported by \<open>ai4eps.py\<close>
  from a module that is not among the sources. The spec leaves two things open: the
  per-channel rescaling formula and how the gaussian's sigma follows from the label width.
  Both are parameters, and so are the floating-point exponential and the rounding of an
  amplitude to float32 that \<open>torch.tensor(..., dtype=torch.float32)\<close> performs.
\<close>

record helpers =
  norm_fn :: "real list \<Rightarrow> real \<Rightarrow> real"
  sigma_of :: "int \<Rightarrow> real"
  exp_fn :: "real \<Rightarrow> real"
  to_float32 :: "real \<Rightarrow> real"

definition absent_sentinel :: int where
  "absent_sentinel = - 999999999"

text \<open>
  Modelled from the spec: \<open>generate_label\<close> is missing. Spec 4.3: for a phase with a
  non-sentinel index \<open>i\<close> a curve of \<open>L\<close> samples, \<open>exp (- (t - i)^2 / (2 sigma^2))\<close> for the
  gaussian and \<open>max 0 (1 - |t - i| / (w / 2))\<close> for the triangle; for the sentinel the
  curve is all zero; the rows are in the order of the index vector.
\<close>

definition label_curve :: "helpers \<Rightarrow> label_shape \<Rightarrow> int \<Rightarrow> int \<Rightarrow> int \<Rightarrow> real" where
  "label_curve hp shape w i t =
     (case shape of
        Gaussian \<Rightarrow> exp_fn hp (- ((real_of_int (t - i))\<^sup>2) / (2 * (sigma_of hp w)\<^sup>2))
      | Triangle \<Rightarrow> max 0 (1 - \<bar>real_of_int (t - i)\<bar> / (real_of_int w / 2)))"

definition generate_label ::
  "helpers \<Rightarrow> label_shape \<Rightarrow> int \<Rightarrow> int \<Rightarrow> int list \<Rightarrow> real list list" where
  "generate_label hp shape w L idxs =
     map (\<lambda>i. if i = absent_sentinel then replicate (nat L) 0
              else map (\<lambda>t. label_curve hp shape w i (int t)) [0..<nat L]) idxs"

text \<open>
  Modelled from the spec: \<open>normalize_waveform\<close> is missing. Spec 4.5: a per-channel
  rescaling of the waveform that must not alter the label; every other key is kept.
\<close>

definition normalize_waveform :: "helpers \<Rightarrow> sample \<Rightarrow> sample" where
  "normalize_waveform hp s = s\<lparr>data := map (\<lambda>ch. map (norm_fn hp ch) ch) (data s)\<rparr>"

text \<open>
  Modelled from the spec: \<open>stack_rand\<close> is missing. Spec 4.4: the waveform is the
  elementwise sum of the two matrices; the label curves are combined by the elementwise
  maximum, phase by phase; the reported phase index comes from whichever input has the
  phase present, the first sample preferred. Stacking changes nothing else (spec 3), so
  the other keys are those of the first sample.
\<close>

definition stack_rand :: "sample \<Rightarrow> sample \<Rightarrow> int \<Rightarrow> sample" where
  "stack_rand s1 s2 w =
     s1\<lparr>data := map2 (map2 (+)) (data s1) (data s2),
        label := map2 (map2 max) (label s1) (label s2),
        phase_index := map2 (\<lambda>a b. if a \<noteq> absent_sentinel then a else b)
                         (phase_index s1) (phase_index s2)\<rparr>"

section \<open>\<open>Ai4epsDataset.get_item_without_stack\<close>\<close>

text \<open>
  Lines 74 to 77: the entry of \<open>index_to_waveform_id\<close> and the HDF5 dataset it names,
  with the waveform as the float32 tensor made of it.
\<close>

definition fetch ::
  "helpers \<Rightarrow> dataset \<Rightarrow> h5file \<Rightarrow> int \<Rightarrow> error + (string \<times> string \<times> h5dataset)" where
  "fetch hp ds h5 idx =
     (case py_getitem (index_to_waveform_id ds) idx of
        Inl e \<Rightarrow> Inl e
      | Inr (ev, st) \<Rightarrow>
          (case h5 ev of
             None \<Rightarrow> Inl KeyError
           | Some grp \<Rightarrow>
               (case grp st of
                  None \<Rightarrow> Inl KeyError
                | Some rec \<Rightarrow>
                    Inr (ev, st, rec\<lparr>waveform := map (map (to_float32 hp)) (waveform rec)\<rparr>))))"

text \<open>
  Lines 79 to 94: the sample dictionary and the window proposed from the earliest pick.
  The result is the sample together with the local variables \<open>start_index\<close> and
  \<open>end_index\<close>.
\<close>

definition propose ::
  "dataset \<Rightarrow> string \<times> string \<times> h5dataset \<Rightarrow> error + (sample \<times> int \<times> int)" where
  "propose ds x =
     (case x of (ev, st, rec) \<Rightarrow>
        (case py_min (attrs_phase_index rec) of
           Inl e \<Rightarrow> Inl e
         | Inr min_index \<Rightarrow>
             (let start = min_index - first_arrival_index_in_final_window_if_no_shift ds;
                  stop = min_index - first_arrival_index_in_final_window_if_no_shift ds
                           + window_length_in_npts ds
              in Inr (\<lparr> event_id = ev,
                         network = attrs_network rec,
                         station_id = st,
                         data = waveform rec,
                         phase_index = attrs_phase_index rec,
                         phase_type = attrs_phase_type rec,
                         start_index = Some start,
                         end_index = Some stop,
                         label = [] \<rparr>, start, stop))))"

text \<open>Lines 96 and 97: the transform, when one is configured.\<close>

definition apply_transform :: "dataset \<Rightarrow> sample \<Rightarrow> error + sample" where
  "apply_transform ds smp = (case transform ds of None \<Rightarrow> Inr smp | Some f \<Rightarrow> f smp)"

text \<open>
  Lines 104 to 111: the loop over \<open>self.phases\<close>. \<open>ptype\<close> is \<open>sample['phase_type']\<close> and
  \<open>pidx\<close> the shifted \<open>sample['phase_index']\<close>.
\<close>

fun expand_phase_index :: "string list \<Rightarrow> string list \<Rightarrow> int list \<Rightarrow> error + int list" where
  "expand_phase_index [] ptype pidx = Inr []"
| "expand_phase_index (phase # rest) ptype pidx =
     (if phase \<in> set ptype then
        (case py_list_index ptype phase of
           Inl e \<Rightarrow> Inl e
         | Inr k \<Rightarrow>
             (case py_getitem pidx (int k) of
                Inl e \<Rightarrow> Inl e
              | Inr v \<Rightarrow>
                  (case expand_phase_index rest ptype pidx of
                     Inl e \<Rightarrow> Inl e
                   | Inr vs \<Rightarrow> Inr (v # vs))))
      else
        (case expand_phase_index rest ptype pidx of
           Inl e \<Rightarrow> Inl e
         | Inr vs \<Rightarrow> Inr (absent_sentinel # vs)))"

text \<open>
  Lines 99 to 122: crop every channel to \<open>[start_index:end_index]\<close> (the local variables,
  not the keys of the sample), shift the picks, reorder them by \<open>self.phases\<close>, make the
  label and normalise.
\<close>

definition crop_and_label :: "helpers \<Rightarrow> dataset \<Rightarrow> sample \<times> int \<times> int \<Rightarrow> error + sample" where
  "crop_and_label hp ds x =
     (case x of (smp, start, stop) \<Rightarrow>
        (case expand_phase_index (phases ds) (phase_type smp)
                (map (\<lambda>i. i - start) (phase_index smp)) of
           Inl e \<Rightarrow> Inl e
         | Inr expanded \<Rightarrow>
             (case torch_tensor expanded of
                Inl e \<Rightarrow> Inl e
              | Inr t \<Rightarrow>
                  Inr (normalize_waveform hp
                        (smp\<lparr>data := map (py_slice start stop) (data smp),
                             phase_index := t,
                             phase_type := phases ds,
                             label := generate_label hp (label_shape ds)
                                        (label_width_in_npts ds) (window_length_in_npts ds) t\<rparr>)))))"

definition get_item_without_stack :: "helpers \<Rightarrow> dataset \<Rightarrow> h5file \<Rightarrow> int \<Rightarrow> error + sample" where
  "get_item_without_stack hp ds h5 idx =
     (case fetch hp ds h5 idx of
        Inl e \<Rightarrow> Inl e
      | Inr x \<Rightarrow>
          (case propose ds x of
             Inl e \<Rightarrow> Inl e
           | Inr (smp, start, stop) \<Rightarrow>
               (case apply_transform ds smp of
                  Inl e \<Rightarrow> Inl e
                | Inr smp' \<Rightarrow> crop_and_label hp ds (smp', start, stop))))"

section \<open>\<open>Ai4epsDataset.__getitem__\<close>\<close>

text \<open>
  The two random draws are arguments: \<open>u\<close> is the value of \<open>torch.rand(1)\<close> and
  \<open>random_idx\<close> the value of \<open>torch.randint(0, len(self), (1,))\<close>, which is used only when
  \<open>u\<close> is below the stacking ratio.
\<close>

definition getitem :: "helpers \<Rightarrow> dataset \<Rightarrow> h5file \<Rightarrow> real \<Rightarrow> int \<Rightarrow> int \<Rightarrow> error + sample" where
  "getitem hp ds h5 u random_idx idx =
     (case get_item_without_stack hp ds h5 idx of
        Inl e \<Rightarrow> Inl e
      | Inr current_sample \<Rightarrow>
          (case (if u < random_stack_two_waveforms_ratio ds then
                   (case get_item_without_stack hp ds h5 random_idx of
                      Inl e \<Rightarrow> Inl e
                    | Inr random_sample \<Rightarrow>
                        Inr (stack_rand current_sample random_sample (label_width_in_npts ds)))
                 else Inr current_sample) of
             Inl e \<Rightarrow> Inl e
           | Inr stacked \<Rightarrow>
               Inr ((normalize_waveform hp stacked)\<lparr>start_index := None, end_index := None\<rparr>)))"

section \<open>\<open>split_train_test_val_for_ai4eps\<close>\<close>

text \<open>
  A row of \<open>phase_picks.csv\<close>; the splitter reads the first two columns only.
\<close>

record pick_row =
  pick_event_id :: string
  pick_station_id :: string
  pick_phase_index :: int
  pick_phase_time :: string
  pick_phase_score :: string
  pick_phase_type :: string
  pick_phase_polarity :: string

definition pick_key :: "pick_row \<Rightarrow> string \<times> string" where
  "pick_key r = (pick_event_id r, pick_station_id r)"

text \<open>\<open>DataFrame.drop_duplicates\<close>: the first occurrence of every row is kept, in order.\<close>

definition drop_duplicates :: "'a list \<Rightarrow> 'a list" where
  "drop_duplicates xs = rev (remdups (rev xs))"

text \<open>
  Python floats stay abstract: \<open>'f\<close> is the type of the ratios, and the three operations
  the splitter applies to them are parameters (\<open>a + b\<close>, \<open>a * n\<close> for an integer \<open>n\<close>, and
  \<open>int(a)\<close>, which raises for a value that is not finite).
\<close>

record 'f pyfloat =
  float_add :: "'f \<Rightarrow> 'f \<Rightarrow> 'f"
  float_mul_int :: "'f \<Rightarrow> int \<Rightarrow> 'f"
  float_int :: "'f \<Rightarrow> error + int"

text \<open>
  \<open>np.split(ary, [i1, i2])\<close> along the first axis: the slices \<open>ary[0:i1]\<close>, \<open>ary[i1:i2]\<close>
  and \<open>ary[i2:len(ary)]\<close>.
\<close>

definition np_split :: "'a list \<Rightarrow> int \<Rightarrow> int \<Rightarrow> 'a list \<times> 'a list \<times> 'a list" where
  "np_split ary i1 i2 =
     (py_slice 0 i1 ary, py_slice i1 i2 ary, py_slice i2 (int (length ary)) ary)"

text \<open>
  The generator is a parameter: \<open>rng_order seed n\<close> is what \<open>default_rng(seed).shuffle\<close>
  does to \<open>n\<close> rows, as the list of the old positions in their new order, or the error
  raised for a seed it refuses.
\<close>

definition split_train_test_val_for_ai4eps ::
  "(int \<Rightarrow> nat \<Rightarrow> error + nat list) \<Rightarrow> 'f pyfloat \<Rightarrow> pick_row list \<Rightarrow> 'f list \<Rightarrow> int \<Rightarrow>
   error + ((string \<times> string) list \<times> (string \<times> string) list \<times> (string \<times> string) list)" where
  "split_train_test_val_for_ai4eps rng_order fl phase_picks ratio seed =
     (let unique_event_station_pairs = drop_duplicates (map pick_key phase_picks)
      in (case rng_order seed (length unique_event_station_pairs) of
            Inl e \<Rightarrow> Inl e
          | Inr order \<Rightarrow>
              (let shuffled = map (\<lambda>i. unique_event_station_pairs ! i) order
               in (case py_getitem ratio 0 of
                     Inl e \<Rightarrow> Inl e
                   | Inr r0 \<Rightarrow>
                       (case float_int fl (float_mul_int fl r0 (int (length shuffled))) of
                          Inl e \<Rightarrow> Inl e
                        | Inr i1 \<Rightarrow>
                            (case py_getitem ratio 1 of
                               Inl e \<Rightarrow> Inl e
                             | Inr r1 \<Rightarrow>
                                 (case float_int fl
                                         (float_mul_int fl (float_add fl r0 r1)
                                            (int (length shuffled))) of
                                    Inl e \<Rightarrow> Inl e
                                  | Inr i2 \<Rightarrow> Inr (np_split shuffled i1 i2))))))))"

section \<open>A window inside the waveform\<close>

text \<open>
  The window proposed for entry \<open>idx\<close> lies inside every channel of the data that reaches
  the cropping step: the entry is read without an error, the start is not negative and
  the end is not beyond the channel.
\<close>

definition window_inside :: "helpers \<Rightarrow> dataset \<Rightarrow> h5file \<Rightarrow> int \<Rightarrow> bool" where
  "window_inside hp ds h5 idx =
     (case fetch hp ds h5 idx of
        Inl e \<Rightarrow> False
      | Inr x \<Rightarrow>
          (case propose ds x of
             Inl e \<Rightarrow> False
           | Inr (smp, start, stop) \<Rightarrow>
               (case apply_transform ds smp of
                  Inl e \<Rightarrow> False
                | Inr smp' \<Rightarrow>
                    0 \<le> start \<and> list_all (\<lambda>ch. stop \<le> int (length ch)) (data smp'))))"

section \<open>Example inputs\<close>

text \<open>
  A small store for the closed examples: a window of 8 samples with the first arrival 4
  samples in. \<open>A01\<close> holds the window, \<open>A02\<close> is too short for it, \<open>A03\<close> has its pick
  too early for it, and \<open>A04\<close> picks \<open>P\<close> twice and a phase outside the canonical list.
  The normalisation divides a channel by its largest magnitude, floored at 1; the
  examples use the triangle label, and \<open>exp_fn\<close> is a rational stand-in; the amplitudes
  of the examples are small integers, which the rounding to float32 leaves as they are.
\<close>

definition hp_ex :: helpers where
  "hp_ex = \<lparr> norm_fn = (\<lambda>ch x. x / fold max (map abs ch) 1),
             sigma_of = (\<lambda>w. real_of_int w / 6),
             exp_fn = (\<lambda>x. 1 / (1 - x)),
             to_float32 = (\<lambda>x. x) \<rparr>"

definition rec_inside :: h5dataset where
  "rec_inside = \<lparr> waveform = [[1, 2, 3, 4, 5, 6, 7, 8, 9, 10, 11, 12],
                               [0, 0, 0, 0, 0, 2, 0, 0, -4, 0, 0, 0]],
                   attrs_network = ''YL'',
                   attrs_phase_index = [5, 8],
                   attrs_phase_type = [''P'', ''S''] \<rparr>"

definition rec_short :: h5dataset where
  "rec_short = \<lparr> waveform = [[1, 2, 3, 4, 5, 6]],
                  attrs_network = ''YL'',
                  attrs_phase_index = [5],
                  attrs_phase_type = [''P''] \<rparr>"

definition rec_early :: h5dataset where
  "rec_early = \<lparr> waveform = [[1, 2, 3, 4, 5, 6]],
                  attrs_network = ''YL'',
                  attrs_phase_index = [2],
                  attrs_phase_type = [''S''] \<rparr>"

definition rec_twice :: h5dataset where
  "rec_twice = \<lparr> waveform = [[1, 2, 3, 4, 5, 6, 7, 8, 9, 10, 11, 12]],
                  attrs_network = ''YL'',
                  attrs_phase_index = [6, 5, 8, 7],
                  attrs_phase_type = [''Pn'', ''P'', ''S'', ''P''] \<rparr>"

definition h5_ex :: h5file where
  "h5_ex = [''e1'' \<mapsto> [''A01'' \<mapsto> rec_inside, ''A02'' \<mapsto> rec_short],
            ''e2'' \<mapsto> [''A03'' \<mapsto> rec_early, ''A04'' \<mapsto> rec_twice]]"

definition ds_ex :: dataset where
  "ds_ex = \<lparr> transform = None,
             label_shape = Triangle,
             label_width_in_npts = 2,
             window_length_in_npts = 8,
             phases = [''P'', ''S'', ''PS''],
             first_arrival_index_in_final_window_if_no_shift = 4,
             random_stack_two_waveforms_ratio = 1 / 2,
             h5py_path = [''d'', ''waveform.h5''],
             index_to_waveform_id =
               [(''e1'', ''A01''), (''e1'', ''A02''), (''e2'', ''A03''), (''e2'', ''A04'')] \<rparr>"

text \<open>A transform that moves the window bounds it was given two samples to the right.\<close>

definition hook_jitter :: "sample \<Rightarrow> error + sample" where
  "hook_jitter s = Inr (s\<lparr>start_index := map_option (\<lambda>i. i + 2) (start_index s),
                           end_index := map_option (\<lambda>i. i + 2) (end_index s)\<rparr>)"

definition ds_hook :: dataset where
  "ds_hook = ds_ex\<lparr>transform := Some hook_jitter\<rparr>"

text \<open>
  For the splitter: exact arithmetic in place of the floats, with \<open>int\<close> truncating
  towards zero; a generator that reverses the rows and refuses a negative seed; and a
  pick table of six rows with four distinct keys.
\<close>

definition fl_ex :: "real pyfloat" where
  "fl_ex = \<lparr> float_add = (\<lambda>a b. a + b),
             float_mul_int = (\<lambda>a n. a * real_of_int n),
             float_int = (\<lambda>a. Inr (if 0 \<le> a then \<lfloor>a\<rfloor> else \<lceil>a\<rceil>)) \<rparr>"

definition rng_ex :: "int \<Rightarrow> nat \<Rightarrow> error + nat list" where
  "rng_ex seed n = (if seed < 0 then Inl ValueError else Inr (rev [0..<n]))"

definition picks_ex :: "pick_row list" where
  "picks_ex =
     [\<lparr> pick_event_id = ''e1'', pick_station_id = ''A01'', pick_phase_index = 5,
         pick_phase_time = ''t1'', pick_phase_score = ''0.9'', pick_phase_type = ''P'',
         pick_phase_polarity = ''U'' \<rparr>,
      \<lparr> pick_event_id = ''e1'', pick_station_id = ''A01'', pick_phase_index = 8,
         pick_phase_time = ''t2'', pick_phase_score = ''0.8'', pick_phase_type = ''S'',
         pick_phase_polarity = ''N'' \<rparr>,
      \<lparr> pick_event_id = ''e1'', pick_station_id = ''A02'', pick_phase_index = 5,
         pick_phase_time = ''t3'', pick_phase_score = ''0.7'', pick_phase_type = ''P'',
         pick_phase_polarity = ''D'' \<rparr>,
      \<lparr> pick_event_id = ''e2'', pick_station_id = ''A03'', pick_phase_index = 2,
         pick_phase_time = ''t4'', pick_phase_score = ''0.9'', pick_phase_type = ''S'',
         pick_phase_polarity = ''N'' \<rparr>,
      \<lparr> pick_event_id = ''e2'', pick_station_id = ''A04'', pick_phase_index = 5,
         pick_phase_time = ''t5'', pick_phase_score = ''0.6'', pick_phase_type = ''P'',
         pick_phase_polarity = ''U'' \<rparr>,
      \<lparr> pick_event_id = ''e2'', pick_station_id = ''A04'', pick_phase_index = 8,
         pick_phase_time = ''t6'', pick_phase_score = ''0.5'', pick_phase_type = ''S'',
         pick_phase_polarity = ''N'' \<rparr>]"

section \<open>Facts about the Python operations\<close>

lemma py_min_Min:
  assumes "xs \<noteq> []"
  shows "py_min xs = Inr (Min (set xs))"
proof (cases xs)
  case Nil
  with assms show ?thesis by simp
next
  case (Cons a list)
  then show ?thesis using Min.set_eq_fold [of a list] by simp
qed

lemma py_getitem_nat: "k < length xs \<Longrightarrow> py_getitem xs (int k) = Inr (xs ! k)"
  by (simp add: py_getitem_def)

lemma py_list_index_first:
  "x \<in> set ys \<Longrightarrow>
   \<exists>k. py_list_index ys x = Inr k \<and> k < length ys \<and> ys ! k = x \<and> (\<forall>j<k. ys ! j \<noteq> x)"
proof (induction ys)
  case Nil
  then show ?case by simp
next
  case (Cons y ys)
  show ?case
  proof (cases "y = x")
    case True
    then show ?thesis by simp
  next
    case False
    with Cons.prems have "x \<in> set ys" by simp
    from Cons.IH [OF this] obtain k where
      k: "py_list_index ys x = Inr k" "k < length ys" "ys ! k = x" "\<forall>j<k. ys ! j \<noteq> x"
      by blast
    have "\<forall>j<Suc k. (y # ys) ! j \<noteq> x"
      using False k(4) by (auto simp: nth_Cons split: nat.splits)
    with False k show ?thesis by simp
  qed
qed

lemma py_list_index_unique:
  "k < length ys \<Longrightarrow> ys ! k = x \<Longrightarrow> \<forall>j<k. ys ! j \<noteq> x \<Longrightarrow> py_list_index ys x = Inr k"
proof -
  assume a: "k < length ys" "ys ! k = x" "\<forall>j<k. ys ! j \<noteq> x"
  then have "x \<in> set ys" by (auto simp: in_set_conv_nth)
  from py_list_index_first [OF this] obtain k' where
    k': "py_list_index ys x = Inr k'" "k' < length ys" "ys ! k' = x" "\<forall>j<k'. ys ! j \<noteq> x"
    by blast
  have "k' = k"
    using a k' by (metis linorder_neqE_nat)
  with k' show ?thesis by simp
qed

lemma py_list_index_map_of:
  "py_list_index ptype p = Inr k \<Longrightarrow> k < length pidx \<Longrightarrow>
   map_of (zip ptype pidx) p = Some (pidx ! k)"
proof (induction ptype arbitrary: k pidx)
  case Nil
  then show ?case by simp
next
  case (Cons t ptype)
  then show ?case
    by (cases pidx) (auto split: if_splits sum.splits)
qed

lemma map_of_zip_absent: "p \<notin> set ptype \<Longrightarrow> map_of (zip ptype pidx) p = None"
proof (induction ptype arbitrary: pidx)
  case Nil
  then show ?case by simp
next
  case (Cons t ptype)
  then show ?case by (cases pidx) auto
qed

lemma expand_closed:
  assumes "length ptype \<le> length pidx"
  shows "expand_phase_index phs ptype pidx =
         Inr (map (\<lambda>p. case map_of (zip ptype pidx) p of None \<Rightarrow> absent_sentinel | Some v \<Rightarrow> v) phs)"
proof (induction phs)
  case Nil
  then show ?case by simp
next
  case (Cons p phs)
  show ?case
  proof (cases "p \<in> set ptype")
    case True
    from py_list_index_first [OF True] obtain k where
      k: "py_list_index ptype p = Inr k" "k < length ptype" by blast
    with assms have kl: "k < length pidx" by simp
    from py_list_index_map_of [OF k(1) kl] k(1) kl True Cons.IH
    show ?thesis by (simp add: py_getitem_nat)
  next
    case False
    with Cons.IH show ?thesis by (simp add: map_of_zip_absent)
  qed
qed


lemma map_of_zip_shift:
  "map_of (zip ptype (map f pidx)) p = map_option f (map_of (zip ptype pidx) p)"
  by (simp add: zip_map2 map_of_map)

lemma expanded_int64:
  assumes "list_all int64 (map f pidx)"
  shows "list_all int64
           (map (\<lambda>p. case map_of (zip ptype (map f pidx)) p of
                        None \<Rightarrow> absent_sentinel | Some v \<Rightarrow> v) phs)"
proof -
  have s: "int64 absent_sentinel"
    by (simp add: int64_def absent_sentinel_def)
  have "int64 v" if "map_of (zip ptype (map f pidx)) p = Some v" for p v
  proof -
    from that have "(p, v) \<in> set (zip ptype (map f pidx))" by (rule map_of_SomeD)
    then have "v \<in> set (map f pidx)" by (rule set_zip_rightD)
    with assms show ?thesis unfolding list_all_iff by blast
  qed
  with s show ?thesis
    by (auto simp: list_all_iff split: option.splits)
qed

lemma crop_and_label_ok:
  assumes "length (phase_type smp) \<le> length (phase_index smp)"
    and "list_all (\<lambda>i. int64 (i - start)) (phase_index smp)"
  shows "crop_and_label hp ds (smp, start, stop) =
         Inr (normalize_waveform hp
               (smp\<lparr>data := map (py_slice start stop) (data smp),
                    phase_index :=
                      map (\<lambda>p. case map_of (zip (phase_type smp) (phase_index smp)) p of
                                 None \<Rightarrow> absent_sentinel | Some i \<Rightarrow> i - start) (phases ds),
                    phase_type := phases ds,
                    label := generate_label hp (label_shape ds) (label_width_in_npts ds)
                               (window_length_in_npts ds)
                               (map (\<lambda>p. case map_of (zip (phase_type smp) (phase_index smp)) p of
                                          None \<Rightarrow> absent_sentinel | Some i \<Rightarrow> i - start)
                                  (phases ds))\<rparr>))"
proof -
  let ?f = "\<lambda>i. i - start"
  let ?E = "map (\<lambda>p. case map_of (zip (phase_type smp) (map ?f (phase_index smp))) p of
                       None \<Rightarrow> absent_sentinel | Some v \<Rightarrow> v) (phases ds)"
  have len: "length (phase_type smp) \<le> length (map ?f (phase_index smp))"
    using assms(1) by simp
  have e: "expand_phase_index (phases ds) (phase_type smp) (map ?f (phase_index smp)) = Inr ?E"
    by (rule expand_closed [OF len])
  have "list_all int64 (map ?f (phase_index smp))"
    using assms(2) by (simp add: list_all_iff)
  then have t: "torch_tensor ?E = Inr ?E"
    unfolding torch_tensor_def using expanded_int64 [of ?f "phase_index smp" "phase_type smp" "phases ds"]
    by simp
  have eq: "?E = map (\<lambda>p. case map_of (zip (phase_type smp) (phase_index smp)) p of
                            None \<Rightarrow> absent_sentinel | Some i \<Rightarrow> i - start) (phases ds)"
    by (simp add: map_of_zip_shift split: option.splits)
  show ?thesis
    unfolding crop_and_label_def prod.case e sum.case t
    unfolding eq ..
qed

lemma propose_ok:
  assumes "attrs_phase_index rec \<noteq> []"
  shows "propose ds (ev, st, rec) =
         Inr (\<lparr> event_id = ev, network = attrs_network rec, station_id = st,
                 data = waveform rec, phase_index = attrs_phase_index rec,
                 phase_type = attrs_phase_type rec,
                 start_index = Some (Min (set (attrs_phase_index rec))
                                       - first_arrival_index_in_final_window_if_no_shift ds),
                 end_index = Some (Min (set (attrs_phase_index rec))
                                     - first_arrival_index_in_final_window_if_no_shift ds
                                     + window_length_in_npts ds),
                 label = [] \<rparr>,
              Min (set (attrs_phase_index rec)) - first_arrival_index_in_final_window_if_no_shift ds,
              Min (set (attrs_phase_index rec)) - first_arrival_index_in_final_window_if_no_shift ds
                + window_length_in_npts ds)"
  by (simp add: propose_def Let_def py_min_Min [OF assms])

lemma get_item_ok:
  assumes "fetch hp ds h5 idx = Inr x"
    and "propose ds x = Inr (smp0, start, stop)"
    and "apply_transform ds smp0 = Inr smp"
    and "length (phase_type smp) \<le> length (phase_index smp)"
    and "list_all (\<lambda>i. int64 (i - start)) (phase_index smp)"
  shows "get_item_without_stack hp ds h5 idx =
         Inr (normalize_waveform hp
               (smp\<lparr>data := map (py_slice start stop) (data smp),
                    phase_index :=
                      map (\<lambda>p. case map_of (zip (phase_type smp) (phase_index smp)) p of
                                 None \<Rightarrow> absent_sentinel | Some i \<Rightarrow> i - start) (phases ds),
                    phase_type := phases ds,
                    label := generate_label hp (label_shape ds) (label_width_in_npts ds)
                               (window_length_in_npts ds)
                               (map (\<lambda>p. case map_of (zip (phase_type smp) (phase_index smp)) p of
                                          None \<Rightarrow> absent_sentinel | Some i \<Rightarrow> i - start)
                                  (phases ds))\<rparr>))"
  unfolding get_item_without_stack_def
  by (simp add: assms(1,2,3) crop_and_label_ok [OF assms(4,5)])

lemma py_slice_inside:
  assumes "0 \<le> start" "start \<le> stop" "stop \<le> int (length xs)"
  shows "py_slice start stop xs = take (nat (stop - start)) (drop (nat start) xs)"
proof -
  have "slice_bound (length xs) start = nat start" "slice_bound (length xs) stop = nat stop"
    using assms by (auto simp: slice_bound_def)
  moreover have "nat stop - nat start = nat (stop - start)"
    using assms by linarith
  ultimately show ?thesis by (simp add: py_slice_def)
qed

lemma apply_transform_None: "transform ds = None \<Longrightarrow> apply_transform ds smp = Inr smp"
  by (simp add: apply_transform_def)

lemma map_of_filter_keys:
  "p \<in> K \<Longrightarrow> map_of (filter (\<lambda>(t, i). t \<in> K) xs) p = map_of xs p"
  by (induction xs) auto

lemma py_getitem_out_of_range:
  "int (length xs) \<le> i \<or> i < - int (length xs) \<Longrightarrow> py_getitem xs i = Inl IndexError"
  by (auto simp: py_getitem_def)

lemma py_getitem_negative:
  "- int (length xs) \<le> i \<Longrightarrow> i < 0 \<Longrightarrow> py_getitem xs i = py_getitem xs (i + int (length xs))"
  by (simp add: py_getitem_def)

lemma map2_max_same: "map2 max xs xs = (xs :: 'a :: linorder list)"
  by (induction xs) simp_all

lemma map2_map2_max_same: "map2 (map2 max) xss xss = (xss :: 'a :: linorder list list)"
  by (induction xss) (simp_all add: map2_max_same)

lemma distinct_drop_duplicates: "distinct (drop_duplicates xs)"
  by (simp add: drop_duplicates_def)

lemma set_drop_duplicates: "set (drop_duplicates xs) = set xs"
  by (simp add: drop_duplicates_def)

lemma mset_shuffled:
  assumes "mset order = mset [0..<length xs]"
  shows "mset (map (\<lambda>i. xs ! i) order) = mset xs"
proof -
  have "mset (map (\<lambda>i. xs ! i) order) = image_mset (\<lambda>i. xs ! i) (mset order)"
    by simp
  also have "\<dots> = image_mset (\<lambda>i. xs ! i) (mset [0..<length xs])"
    by (simp only: assms)
  also have "\<dots> = mset (map (\<lambda>i. xs ! i) [0..<length xs])"
    by simp
  also have "\<dots> = mset xs"
    by (simp only: map_nth)
  finally show ?thesis .
qed

lemma np_split_parts:
  assumes "0 \<le> i1" "i1 \<le> i2"
  shows "np_split xs i1 i2 =
         (take (min (nat i1) (length xs)) xs,
          take (min (nat i2) (length xs) - min (nat i1) (length xs))
            (drop (min (nat i1) (length xs)) xs),
          drop (min (nat i2) (length xs)) xs)"
  using assms by (simp add: np_split_def py_slice_def slice_bound_def Let_def)

lemma three_parts_append:
  assumes "a \<le> b"
  shows "take a xs @ take (b - a) (drop a xs) @ drop b xs = xs"
proof -
  have "drop b xs = drop (b - a) (drop a xs)"
    using assms by simp
  then have "take (b - a) (drop a xs) @ drop b xs = drop a xs"
    by (simp only: append_take_drop_id)
  then show ?thesis by simp
qed


lemma propose_stop:
  assumes "propose ds x = Inr (smp, start, stop)"
  shows "stop = start + window_length_in_npts ds"
  using assms by (cases x) (auto simp: propose_def Let_def split: sum.splits)

lemma length_py_slice_inside:
  assumes "0 \<le> start" "start \<le> stop" "stop \<le> int (length ch)"
  shows "int (length (py_slice start stop ch)) = stop - start"
  using assms by (simp add: py_slice_inside)

lemma crop_and_label_shape:
  assumes "crop_and_label hp ds (smp, start, stop) = Inr s"
  shows "data s = map (\<lambda>ch. map (norm_fn hp ch) ch) (map (py_slice start stop) (data smp))"
    and "\<exists>t. label s = generate_label hp (label_shape ds) (label_width_in_npts ds)
                         (window_length_in_npts ds) t"
  using assms
  by (auto simp: crop_and_label_def normalize_waveform_def split: sum.splits)

lemma generate_label_widths:
  assumes "0 \<le> L"
  shows "list_all (\<lambda>row. int (length row) = L) (generate_label hp shape w L idxs)"
  using assms by (auto simp: generate_label_def list_all_iff)

lemma get_item_label_width:
  assumes "get_item_without_stack hp ds h5 idx = Inr s"
    and "0 \<le> window_length_in_npts ds"
  shows "list_all (\<lambda>row. int (length row) = window_length_in_npts ds) (label s)"
proof -
  from assms(1) obtain smp start stop where
    "crop_and_label hp ds (smp, start, stop) = Inr s"
    by (auto simp: get_item_without_stack_def split: sum.splits)
  from crop_and_label_shape(2) [OF this] generate_label_widths [OF assms(2)]
  show ?thesis by auto
qed

lemma get_item_data_width:
  assumes "get_item_without_stack hp ds h5 idx = Inr s"
    and "0 \<le> window_length_in_npts ds"
    and "window_inside hp ds h5 idx"
  shows "list_all (\<lambda>ch. int (length ch) = window_length_in_npts ds) (data s)"
proof -
  from assms(1) obtain x smp0 smp start stop where
    f: "fetch hp ds h5 idx = Inr x" and
    p: "propose ds x = Inr (smp0, start, stop)" and
    t: "apply_transform ds smp0 = Inr smp" and
    c: "crop_and_label hp ds (smp, start, stop) = Inr s"
    by (auto simp: get_item_without_stack_def split: sum.splits)
  from assms(3) f p t have
    w: "0 \<le> start" "list_all (\<lambda>ch. stop \<le> int (length ch)) (data smp)"
    by (simp_all add: window_inside_def)
  have st: "stop = start + window_length_in_npts ds"
    by (rule propose_stop [OF p])
  have "int (length (py_slice start stop ch)) = window_length_in_npts ds"
    if "ch \<in> set (data smp)" for ch
  proof -
    from that w(2) have "stop \<le> int (length ch)"
      by (simp add: list_all_iff)
    with w(1) st assms(2) length_py_slice_inside [of start stop ch]
    show ?thesis by simp
  qed
  then show ?thesis
    unfolding crop_and_label_shape(1) [OF c] by (simp add: list_all_iff)
qed

lemma map2_rows_width:
  assumes "list_all (\<lambda>r. int (length r) = L) xss" "list_all (\<lambda>r. int (length r) = L) yss"
  shows "list_all (\<lambda>r. int (length r) = L) (map2 (map2 f) xss yss)"
proof -
  have "int (length (map2 f x y)) = L" if "(x, y) \<in> set (zip xss yss)" for x y
  proof -
    from that have "x \<in> set xss" "y \<in> set yss"
      by (auto dest: set_zip_leftD set_zip_rightD)
    with assms have "int (length x) = L" "int (length y) = L"
      by (simp_all add: list_all_iff)
    then show ?thesis by simp
  qed
  then show ?thesis by (auto simp: list_all_iff)
qed

lemma expand_result:
  "expand_phase_index phs ptype pidx = Inr vs \<Longrightarrow>
   vs = map (\<lambda>p. case map_of (zip ptype pidx) p of None \<Rightarrow> absent_sentinel | Some v \<Rightarrow> v) phs"
proof (induction phs arbitrary: vs)
  case Nil
  then show ?case by simp
next
  case (Cons p phs)
  show ?case
  proof (cases "p \<in> set ptype")
    case True
    with Cons.prems obtain k v vs' where
      k: "py_list_index ptype p = Inr k" and
      v: "py_getitem pidx (int k) = Inr v" and
      r: "expand_phase_index phs ptype pidx = Inr vs'" and
      e: "vs = v # vs'"
      by (auto split: sum.splits)
    from v have kl: "k < length pidx" and vk: "v = pidx ! k"
      by (auto simp: py_getitem_def split: if_splits)
    from py_list_index_map_of [OF k kl] vk e Cons.IH [OF r]
    show ?thesis by simp
  next
    case False
    with Cons.prems obtain vs' where
      r: "expand_phase_index phs ptype pidx = Inr vs'" and
      e: "vs = absent_sentinel # vs'"
      by (auto split: sum.splits)
    have "map_of (zip ptype pidx) p = None"
      by (rule map_of_zip_absent [OF False])
    with e Cons.IH [OF r] show ?thesis by simp
  qed
qed

lemma py_list_index_Inr_mem: "py_list_index ys x = Inr k \<Longrightarrow> x \<in> set ys"
  by (induction ys arbitrary: k) (auto split: if_splits sum.splits)

lemma expand_found_in_range:
  assumes "expand_phase_index phs ptype pidx = Inr vs"
    and "p \<in> set phs"
    and "py_list_index ptype p = Inr k"
  shows "k < length pidx"
  using assms
proof (induction phs arbitrary: vs)
  case Nil
  then show ?case by simp
next
  case (Cons q phs)
  show ?case
  proof (cases "q = p")
    case True
    have "p \<in> set ptype"
      by (rule py_list_index_Inr_mem [OF Cons.prems(3)])
    with True Cons.prems(1,3) obtain v where "py_getitem pidx (int k) = Inr v"
      by (auto split: sum.splits)
    then show ?thesis
      by (auto simp: py_getitem_def split: if_splits)
  next
    case False
    with Cons.prems(2) have m: "p \<in> set phs" by simp
    from Cons.prems(1) obtain vs' where "expand_phase_index phs ptype pidx = Inr vs'"
      by (auto split: sum.splits if_splits)
    from Cons.IH [OF this m Cons.prems(3)] show ?thesis .
  qed
qed

lemma crop_and_label_result:
  assumes "crop_and_label hp ds (smp, start, stop) = Inr s"
  shows "s = normalize_waveform hp
               (smp\<lparr>data := map (py_slice start stop) (data smp),
                    phase_index :=
                      map (\<lambda>p. case map_of (zip (phase_type smp) (phase_index smp)) p of
                                 None \<Rightarrow> absent_sentinel | Some i \<Rightarrow> i - start) (phases ds),
                    phase_type := phases ds,
                    label := generate_label hp (label_shape ds) (label_width_in_npts ds)
                               (window_length_in_npts ds)
                               (map (\<lambda>p. case map_of (zip (phase_type smp) (phase_index smp)) p of
                                          None \<Rightarrow> absent_sentinel | Some i \<Rightarrow> i - start)
                                  (phases ds))\<rparr>)"
proof -
  let ?shifted = "map (\<lambda>i. i - start) (phase_index smp)"
  from assms obtain vs where
    e: "expand_phase_index (phases ds) (phase_type smp) ?shifted = Inr vs" and
    s: "s = normalize_waveform hp
              (smp\<lparr>data := map (py_slice start stop) (data smp),
                   phase_index := vs, phase_type := phases ds,
                   label := generate_label hp (label_shape ds) (label_width_in_npts ds)
                              (window_length_in_npts ds) vs\<rparr>)"
    by (auto simp: crop_and_label_def torch_tensor_def split: sum.splits if_splits)
  have "vs = map (\<lambda>p. case map_of (zip (phase_type smp) (phase_index smp)) p of
                        None \<Rightarrow> absent_sentinel | Some i \<Rightarrow> i - start) (phases ds)"
    unfolding expand_result [OF e]
    by (simp add: map_of_zip_shift split: option.splits)
  with s show ?thesis by simp
qed

lemma get_item_result:
  assumes "fetch hp ds h5 idx = Inr x"
    and "propose ds x = Inr (smp0, start, stop)"
    and "apply_transform ds smp0 = Inr smp"
    and "get_item_without_stack hp ds h5 idx = Inr s"
  shows "s = normalize_waveform hp
               (smp\<lparr>data := map (py_slice start stop) (data smp),
                    phase_index :=
                      map (\<lambda>p. case map_of (zip (phase_type smp) (phase_index smp)) p of
                                 None \<Rightarrow> absent_sentinel | Some i \<Rightarrow> i - start) (phases ds),
                    phase_type := phases ds,
                    label := generate_label hp (label_shape ds) (label_width_in_npts ds)
                               (window_length_in_npts ds)
                               (map (\<lambda>p. case map_of (zip (phase_type smp) (phase_index smp)) p of
                                          None \<Rightarrow> absent_sentinel | Some i \<Rightarrow> i - start)
                                  (phases ds))\<rparr>)"
proof -
  from assms have "crop_and_label hp ds (smp, start, stop) = Inr s"
    by (simp add: get_item_without_stack_def)
  then show ?thesis by (rule crop_and_label_result)
qed

lemma get_item_found_in_range:
  assumes "fetch hp ds h5 idx = Inr x"
    and "propose ds x = Inr (smp0, start, stop)"
    and "apply_transform ds smp0 = Inr smp"
    and "get_item_without_stack hp ds h5 idx = Inr s"
    and "p \<in> set (phases ds)"
    and "py_list_index (phase_type smp) p = Inr k"
  shows "k < length (phase_index smp)"
proof -
  from assms(1-4) have "crop_and_label hp ds (smp, start, stop) = Inr s"
    by (simp add: get_item_without_stack_def)
  then obtain vs where
    "expand_phase_index (phases ds) (phase_type smp) (map (\<lambda>i. i - start) (phase_index smp))
       = Inr vs"
    by (auto simp: crop_and_label_def split: sum.splits)
  from expand_found_in_range [OF this assms(5,6)] show ?thesis by simp
qed

lemma fetch_stored:
  assumes "fetch hp ds h5 idx = Inr (ev, st, rec)"
  shows "\<exists>grp stored. h5 ev = Some grp \<and> grp st = Some stored
           \<and> rec = stored\<lparr>waveform := map (map (to_float32 hp)) (waveform stored)\<rparr>"
  using assms
  by (auto simp: fetch_def split: sum.splits option.splits prod.splits)

lemma py_slice_from_start:
  assumes "0 \<le> start" "0 \<le> L"
  shows "py_slice start (start + L) ch = take (nat L) (drop (nat start) ch)"
proof (cases "nat start < length ch")
  case False
  with assms show ?thesis
    by (simp add: py_slice_def slice_bound_def Let_def)
next
  case True
  show ?thesis
  proof (cases "nat (start + L) \<le> length ch")
    case le: True
    have "min (nat (start + L)) (length ch) - min (nat start) (length ch) = nat L"
      using assms True le by linarith
    with assms True show ?thesis
      by (simp add: py_slice_def slice_bound_def Let_def min_def)
  next
    case gt: False
    have a: "min (nat (start + L)) (length ch) - min (nat start) (length ch)
             = length (drop (nat start) ch)"
      using assms True gt by simp
    have b: "length (drop (nat start) ch) \<le> nat L"
      using assms True gt by simp
    have "take (length (drop (nat start) ch)) (drop (nat start) ch)
          = take (nat L) (drop (nat start) ch)"
      using b by simp
    with assms True a show ?thesis
      by (simp add: py_slice_def slice_bound_def Let_def)
  qed
qed

lemma crop_and_label_no_index_error:
  assumes "length (phase_type smp) \<le> length (phase_index smp)"
  shows "crop_and_label hp ds (smp, start, stop) \<noteq> Inl IndexError"
proof -
  have "length (phase_type smp) \<le> length (map (\<lambda>i. i - start) (phase_index smp))"
    using assms by simp
  from expand_closed [OF this, of "phases ds"] show ?thesis
    by (simp add: crop_and_label_def torch_tensor_def)
qed

section \<open>Width of the waveform and of the label\<close>

text \<open>
  C1 (amended). For every sample \<open>__getitem__\<close> returns, stacked or not, with a window
  length that is not negative: every row of the label has exactly
  \<open>window_length_in_npts\<close> samples; and every channel of the waveform has exactly
  \<open>window_length_in_npts\<close> samples provided the window lies inside the waveform, for the
  requested entry and, when stacking happens, for the partner entry. The length is a
  field of the dataset, the same for every sample.
\<close>

theorem sample_widths:
  assumes "getitem hp ds h5 u random_idx idx = Inr s"
    and "0 \<le> window_length_in_npts ds"
  shows "list_all (\<lambda>row. int (length row) = window_length_in_npts ds) (label s)
         \<and> (window_inside hp ds h5 idx
              \<and> (u < random_stack_two_waveforms_ratio ds \<longrightarrow> window_inside hp ds h5 random_idx)
              \<longrightarrow> list_all (\<lambda>ch. int (length ch) = window_length_in_npts ds) (data s))"
proof (cases "u < random_stack_two_waveforms_ratio ds")
  case False
  with assms(1) obtain c where
    c: "get_item_without_stack hp ds h5 idx = Inr c" and
    s: "s = (normalize_waveform hp c)\<lparr>start_index := None, end_index := None\<rparr>"
    by (auto simp: getitem_def split: sum.splits)
  have "list_all (\<lambda>row. int (length row) = window_length_in_npts ds) (label s)"
    using get_item_label_width [OF c assms(2)] by (simp add: s normalize_waveform_def)
  moreover have "list_all (\<lambda>ch. int (length ch) = window_length_in_npts ds) (data s)"
    if "window_inside hp ds h5 idx"
    using get_item_data_width [OF c assms(2) that]
    by (simp add: s normalize_waveform_def list_all_iff)
  ultimately show ?thesis by blast
next
  case True
  with assms(1) obtain c r where
    c: "get_item_without_stack hp ds h5 idx = Inr c" and
    r: "get_item_without_stack hp ds h5 random_idx = Inr r" and
    s: "s = (normalize_waveform hp (stack_rand c r (label_width_in_npts ds)))
              \<lparr>start_index := None, end_index := None\<rparr>"
    by (auto simp: getitem_def split: sum.splits)
  have "list_all (\<lambda>row. int (length row) = window_length_in_npts ds)
          (map2 (map2 max) (label c) (label r))"
    by (rule map2_rows_width [OF get_item_label_width [OF c assms(2)]
          get_item_label_width [OF r assms(2)]])
  then have "list_all (\<lambda>row. int (length row) = window_length_in_npts ds) (label s)"
    by (simp add: s normalize_waveform_def stack_rand_def)
  moreover have "list_all (\<lambda>ch. int (length ch) = window_length_in_npts ds) (data s)"
    if "window_inside hp ds h5 idx" "window_inside hp ds h5 random_idx"
  proof -
    have "list_all (\<lambda>ch. int (length ch) = window_length_in_npts ds)
            (map2 (map2 (+)) (data c) (data r))"
      by (rule map2_rows_width [OF get_item_data_width [OF c assms(2) that(1)]
            get_item_data_width [OF r assms(2) that(2)]])
    then show ?thesis
      by (simp add: s normalize_waveform_def stack_rand_def list_all_iff)
  qed
  ultimately show ?thesis using True by blast
qed

theorem sample_widths_witness:
  "0 \<le> window_length_in_npts ds_ex
   \<and> window_inside hp_ex ds_ex h5_ex 0
   \<and> window_inside hp_ex ds_ex h5_ex 3
   \<and> 0 < random_stack_two_waveforms_ratio ds_ex
   \<and> (\<exists>s. getitem hp_ex ds_ex h5_ex 0 3 0 = Inr s
          \<and> list_all (\<lambda>row. int (length row) = 8) (label s)
          \<and> list_all (\<lambda>ch. int (length ch) = 8) (data s))"
proof -
  have l: "0 \<le> window_length_in_npts ds_ex" and L: "window_length_in_npts ds_ex = 8"
    and u: "0 < random_stack_two_waveforms_ratio ds_ex"
    by (simp_all add: ds_ex_def)
  have w0: "window_inside hp_ex ds_ex h5_ex 0"
    by (simp add: window_inside_def fetch_def propose_def apply_transform_def py_getitem_def
        ds_ex_def h5_ex_def rec_inside_def)
  have w3: "window_inside hp_ex ds_ex h5_ex 3"
    by (simp add: window_inside_def fetch_def propose_def apply_transform_def py_getitem_def
        ds_ex_def h5_ex_def rec_twice_def)
  have "\<exists>s. getitem hp_ex ds_ex h5_ex 0 3 0 = Inr s"
    by (simp add: getitem_def get_item_without_stack_def fetch_def propose_def
        apply_transform_def crop_and_label_def torch_tensor_def int64_def absent_sentinel_def
        py_getitem_def ds_ex_def h5_ex_def rec_inside_def rec_twice_def)
  then obtain s where g: "getitem hp_ex ds_ex h5_ex 0 3 0 = Inr s" ..
  from sample_widths [OF g l] w0 w3 L
  have "list_all (\<lambda>row. int (length row) = 8) (label s)
        \<and> list_all (\<lambda>ch. int (length ch) = 8) (data s)"
    by simp
  with g l w0 w3 u show ?thesis by blast
qed

text \<open>
  C1, counterexample. Entry 1 has 6 samples per channel and the window runs from 1 to 9:
  the sample is returned with a waveform of 5 samples, while the window length and the
  label width are 8.
\<close>

theorem sample_widths_counterexample:
  "map_sum id (\<lambda>s. (map length (data s), map length (label s)))
     (getitem hp_ex ds_ex h5_ex (3 / 4) 0 1) = Inr ([5], [8, 8, 8])
   \<and> window_length_in_npts ds_ex = 8"
  by (simp add: getitem_def get_item_without_stack_def fetch_def propose_def
      apply_transform_def crop_and_label_def normalize_waveform_def generate_label_def
      torch_tensor_def int64_def absent_sentinel_def py_getitem_def py_slice_def slice_bound_def
      ds_ex_def h5_ex_def rec_short_def)

section \<open>Window extraction\<close>

text \<open>
  C2 (amended). For every waveform record with a non-empty pick list and no transform
  configured, with \<open>r\<close> the least raw arrival index: every sample
  \<open>get_item_without_stack\<close> returns records the bounds \<open>start = r - offset\<close> and
  \<open>end = start + window_length\<close>, so that \<open>r - start\<close> is the configured offset. When the
  window lies inside the waveform (the start not negative, the end not beyond any
  channel), the data is, channel by channel, the \<open>window_length\<close> samples from \<open>start\<close>
  on of the float32 waveform, normalised, and the sample at position \<open>offset\<close> of a
  returned channel is the one the earliest arrival points at. A sample is returned
  whenever the two pick lists have one length and the shifted picks fit 64 bits. Here
  \<open>rec\<close> is the entry as it is read, its waveform already rounded to float32.
\<close>

theorem window_bounds_and_slice:
  assumes "transform ds = None"
    and "fetch hp ds h5 idx = Inr (ev, st, rec)"
    and "attrs_phase_index rec \<noteq> []"
  shows "let r = Min (set (attrs_phase_index rec));
             offset = first_arrival_index_in_final_window_if_no_shift ds;
             L = window_length_in_npts ds
         in (\<exists>grp stored. h5 ev = Some grp \<and> grp st = Some stored
               \<and> rec = stored\<lparr>waveform := map (map (to_float32 hp)) (waveform stored)\<rparr>)
            \<and> (\<forall>s. get_item_without_stack hp ds h5 idx = Inr s \<longrightarrow>
                  (\<exists>start. start_index s = Some start
                     \<and> end_index s = Some (start + L)
                     \<and> start = r - offset
                     \<and> r - start = offset
                     \<and> (0 \<le> start \<and> 0 \<le> L
                          \<and> list_all (\<lambda>ch. start + L \<le> int (length ch)) (waveform rec) \<longrightarrow>
                            data s = map (\<lambda>ch. map (norm_fn hp ch) ch)
                                       (map (\<lambda>ch. take (nat L) (drop (nat start) ch))
                                          (waveform rec))
                            \<and> list_all (\<lambda>ch. int (length ch) = L) (data s)
                            \<and> (\<forall>c<length (waveform rec). 0 \<le> offset \<and> offset < L \<longrightarrow>
                                  data s ! c ! nat offset
                                    = norm_fn hp (take (nat L) (drop (nat start) (waveform rec ! c)))
                                        (waveform rec ! c ! nat r)))))
            \<and> (length (attrs_phase_type rec) = length (attrs_phase_index rec)
                \<and> list_all (\<lambda>i. int64 (i - (r - offset))) (attrs_phase_index rec)
                \<longrightarrow> (\<exists>s. get_item_without_stack hp ds h5 idx = Inr s))"
proof -
  let ?r = "Min (set (attrs_phase_index rec))"
  let ?offset = "first_arrival_index_in_final_window_if_no_shift ds"
  let ?L = "window_length_in_npts ds"
  let ?start = "?r - ?offset"
  let ?stop = "?start + ?L"
  let ?proposed = "\<lparr> event_id = ev, network = attrs_network rec, station_id = st,
                 data = waveform rec, phase_index = attrs_phase_index rec,
                 phase_type = attrs_phase_type rec,
                 start_index = Some ?start, end_index = Some ?stop, label = [] \<rparr>"
  let ?crop = "\<lambda>ch :: real list. take (nat ?L) (drop (nat ?start) ch)"
  have p: "propose ds (ev, st, rec) = Inr (?proposed, ?start, ?stop)"
    by (rule propose_ok [OF assms(3)])
  have t: "apply_transform ds ?proposed = Inr ?proposed"
    by (rule apply_transform_None [OF assms(1)])
  have st: "\<exists>grp stored. h5 ev = Some grp \<and> grp st = Some stored
               \<and> rec = stored\<lparr>waveform := map (map (to_float32 hp)) (waveform stored)\<rparr>"
    by (rule fetch_stored [OF assms(2)])
  have inside: "data s = map (\<lambda>ch. map (norm_fn hp ch) ch) (map ?crop (waveform rec))
                \<and> list_all (\<lambda>ch. int (length ch) = ?L) (data s)
                \<and> (\<forall>c<length (waveform rec). 0 \<le> ?offset \<and> ?offset < ?L \<longrightarrow>
                      data s ! c ! nat ?offset
                        = norm_fn hp (?crop (waveform rec ! c)) (waveform rec ! c ! nat ?r))"
    if g: "get_item_without_stack hp ds h5 idx = Inr s"
      and w: "0 \<le> ?start \<and> 0 \<le> ?L
              \<and> list_all (\<lambda>ch. ?start + ?L \<le> int (length ch)) (waveform rec)" for s
  proof -
    have sl: "py_slice ?start ?stop ch = ?crop ch" for ch :: "real list"
      using w by (simp only: py_slice_from_start)
    have d: "data s = map (\<lambda>ch. map (norm_fn hp ch) ch) (map ?crop (waveform rec))"
      unfolding get_item_result [OF assms(2) p t g]
      by (simp add: normalize_waveform_def sl)
    have len: "int (length (?crop ch)) = ?L" if "ch \<in> set (waveform rec)" for ch
    proof -
      from that w have "?start + ?L \<le> int (length ch)"
        by (simp add: list_all_iff)
      with w show ?thesis by (auto simp: min_def)
    qed
    then have wd: "list_all (\<lambda>ch. int (length ch) = ?L) (data s)"
      unfolding d by (simp add: list_all_iff)
    have al: "data s ! c ! nat ?offset
                = norm_fn hp (?crop (waveform rec ! c)) (waveform rec ! c ! nat ?r)"
      if c: "c < length (waveform rec)" and o: "0 \<le> ?offset \<and> ?offset < ?L" for c
    proof -
      let ?ch = "waveform rec ! c"
      from c have m: "?ch \<in> set (waveform rec)" by simp
      from len [OF m] o have ol: "nat ?offset < length (?crop ?ch)" by linarith
      from m w have e: "?start + ?L \<le> int (length ?ch)"
        by (simp add: list_all_iff)
      have sn: "nat ?start \<le> length ?ch"
        using w e by linarith
      have on: "nat ?offset < nat ?L"
        using o by linarith
      have "?crop ?ch ! nat ?offset = ?ch ! (nat ?start + nat ?offset)"
        using on by (simp add: nth_drop [OF sn])
      moreover have "nat ?start + nat ?offset = nat ?r"
        using o w by linarith
      ultimately have "?crop ?ch ! nat ?offset = ?ch ! nat ?r" by simp
      with c ol show ?thesis
        unfolding d by simp
    qed
    from d wd al show ?thesis by blast
  qed
  have part: "\<exists>start. start_index s = Some start
                     \<and> end_index s = Some (start + ?L)
                     \<and> start = ?r - ?offset
                     \<and> ?r - start = ?offset
                     \<and> (0 \<le> start \<and> 0 \<le> ?L
                          \<and> list_all (\<lambda>ch. start + ?L \<le> int (length ch)) (waveform rec) \<longrightarrow>
                            data s = map (\<lambda>ch. map (norm_fn hp ch) ch)
                                       (map (\<lambda>ch. take (nat ?L) (drop (nat start) ch))
                                          (waveform rec))
                            \<and> list_all (\<lambda>ch. int (length ch) = ?L) (data s)
                            \<and> (\<forall>c<length (waveform rec). 0 \<le> ?offset \<and> ?offset < ?L \<longrightarrow>
                                  data s ! c ! nat ?offset
                                    = norm_fn hp (take (nat ?L) (drop (nat start) (waveform rec ! c)))
                                        (waveform rec ! c ! nat ?r)))"
    if g: "get_item_without_stack hp ds h5 idx = Inr s" for s
  proof (intro exI [of _ ?start] conjI impI)
    show "start_index s = Some ?start" "end_index s = Some (?start + ?L)"
      unfolding get_item_result [OF assms(2) p t g]
      by (simp_all add: normalize_waveform_def)
    show "?start = ?r - ?offset" by simp
    show "?r - ?start = ?offset" by simp
  next
    assume w: "0 \<le> ?start \<and> 0 \<le> ?L
              \<and> list_all (\<lambda>ch. ?start + ?L \<le> int (length ch)) (waveform rec)"
    from inside [OF g w]
    show "data s = map (\<lambda>ch. map (norm_fn hp ch) ch) (map ?crop (waveform rec))"
      "list_all (\<lambda>ch. int (length ch) = ?L) (data s)"
      "\<forall>c<length (waveform rec). 0 \<le> ?offset \<and> ?offset < ?L \<longrightarrow>
                      data s ! c ! nat ?offset
                        = norm_fn hp (?crop (waveform rec ! c)) (waveform rec ! c ! nat ?r)"
      by blast+
  qed
  have tot: "\<exists>s. get_item_without_stack hp ds h5 idx = Inr s"
    if "length (attrs_phase_type rec) = length (attrs_phase_index rec)
        \<and> list_all (\<lambda>i. int64 (i - ?start)) (attrs_phase_index rec)"
  proof -
    from that have l: "length (phase_type ?proposed) \<le> length (phase_index ?proposed)"
      and i: "list_all (\<lambda>i. int64 (i - ?start)) (phase_index ?proposed)"
      by simp_all
    from get_item_ok [OF assms(2) p t l i] show ?thesis by blast
  qed
  show ?thesis
    unfolding Let_def using st part tot by blast
qed

theorem window_bounds_and_slice_witness:
  "transform ds_ex = None
   \<and> fetch hp_ex ds_ex h5_ex 0 = Inr (''e1'', ''A01'', rec_inside)
   \<and> attrs_phase_index rec_inside = [5, 8]
   \<and> first_arrival_index_in_final_window_if_no_shift ds_ex = 4
   \<and> window_length_in_npts ds_ex = 8
   \<and> map length (waveform rec_inside) = [12, 12]
   \<and> map_sum id (\<lambda>s. (start_index s, end_index s, data s, data s ! 1 ! 4))
        (get_item_without_stack hp_ex ds_ex h5_ex 0)
       = Inr (Some (5 - 4), Some (5 - 4 + 8),
              [[2 / 9, 3 / 9, 4 / 9, 5 / 9, 6 / 9, 7 / 9, 8 / 9, 9 / 9],
               [0, 0, 0, 0, 2 / 4, 0, 0, - 4 / 4]],
              2 / 4)"
proof -
  have f: "fetch hp_ex ds_ex h5_ex 0 = Inr (''e1'', ''A01'', rec_inside)"
    by (simp add: fetch_def ds_ex_def h5_ex_def hp_ex_def py_getitem_def)
  have t: "transform ds_ex = None"
    by (simp add: ds_ex_def)
  have n: "attrs_phase_index rec_inside \<noteq> []"
    by (simp add: rec_inside_def)
  have b: "Min (set (attrs_phase_index rec_inside)) = 5"
    "first_arrival_index_in_final_window_if_no_shift ds_ex = 4"
    "window_length_in_npts ds_ex = 8"
    by (simp_all add: rec_inside_def ds_ex_def)
  have w: "length (attrs_phase_type rec_inside) = length (attrs_phase_index rec_inside)
           \<and> list_all (\<lambda>i. int64 (i - (5 - 4))) (attrs_phase_index rec_inside)"
    by (simp add: rec_inside_def int64_def)
  have i: "(0 :: int) \<le> 1 \<and> (0 :: int) \<le> 8
           \<and> list_all (\<lambda>ch. 1 + 8 \<le> int (length ch)) (waveform rec_inside)"
    by (simp add: rec_inside_def)
  note th = window_bounds_and_slice [OF t f n, unfolded Let_def b]
  from th w obtain s where g: "get_item_without_stack hp_ex ds_ex h5_ex 0 = Inr s"
    by blast
  with th obtain start where r: "start_index s = Some start" "end_index s = Some (start + 8)"
    "start = 5 - 4"
    "0 \<le> start \<and> 0 \<le> (8 :: int)
       \<and> list_all (\<lambda>ch. start + 8 \<le> int (length ch)) (waveform rec_inside) \<longrightarrow>
     data s = map (\<lambda>ch. map (norm_fn hp_ex ch) ch)
                (map (\<lambda>ch. take (nat 8) (drop (nat start) ch)) (waveform rec_inside))"
    by blast
  from r(3) have s1: "start = 1" by simp
  from r(4) i have
    "data s = map (\<lambda>ch. map (norm_fn hp_ex ch) ch)
                (map (\<lambda>ch. take (nat 8) (drop (nat 1) ch)) (waveform rec_inside))"
    unfolding s1 by blast
  then have d: "data s = [[2 / 9, 3 / 9, 4 / 9, 5 / 9, 6 / 9, 7 / 9, 8 / 9, 9 / 9],
                     [0, 0, 0, 0, 2 / 4, 0, 0, - 4 / 4]]"
    by (simp add: rec_inside_def hp_ex_def)
  show ?thesis
    using t f r(1,2) by (simp add: g s1 d) (simp add: rec_inside_def ds_ex_def)
qed

text \<open>
  C2, counterexample. Entry 2 has 6 samples per channel and its only pick at 2, so the
  window runs from -2 to 6: the sample is returned with the two last samples of the
  channel, which are not the samples of the window.
\<close>

theorem window_bounds_counterexample:
  "map_sum id (\<lambda>s. (start_index s, end_index s, data s))
     (get_item_without_stack hp_ex ds_ex h5_ex 2) = Inr (Some (- 2), Some 6, [[5 / 6, 1]])
   \<and> waveform rec_early = [[1, 2, 3, 4, 5, 6]]
   \<and> attrs_phase_index rec_early = [2]
   \<and> transform ds_ex = None"
  by (simp add: get_item_without_stack_def fetch_def propose_def apply_transform_def
      crop_and_label_def normalize_waveform_def torch_tensor_def int64_def absent_sentinel_def
      py_getitem_def py_slice_def slice_bound_def ds_ex_def
      h5_ex_def rec_early_def hp_ex_def)

section \<open>Phase index normalisation\<close>

text \<open>
  C3. For every record, with \<open>smp\<close> the sample as it enters the cropping step (the record
  itself when no transform is configured) and \<open>start\<close> the window start: every sample
  returned has the canonical list as its \<open>phase_type\<close> and a \<open>phase_index\<close> with one entry
  per canonical phase, in the order of the canonical list, which is the pick's index
  minus \<open>start\<close> when the phase is among the picks and the sentinel \<open>-999999999\<close>
  otherwise. Picks of a type outside the canonical list play no part: removing them
  leaves the result as it is. A sample is returned whenever the two pick lists have one
  length and the shifted picks fit 64 bits.
\<close>

theorem phase_index_canonical_order:
  assumes "fetch hp ds h5 idx = Inr x"
    and "propose ds x = Inr (smp0, start, stop)"
    and "apply_transform ds smp0 = Inr smp"
  shows "(\<forall>s. get_item_without_stack hp ds h5 idx = Inr s \<longrightarrow>
            phase_type s = phases ds
            \<and> length (phase_index s) = length (phases ds)
            \<and> phase_index s =
                map (\<lambda>p. case map_of (zip (phase_type smp) (phase_index smp)) p of
                           None \<Rightarrow> absent_sentinel | Some i \<Rightarrow> i - start) (phases ds)
            \<and> phase_index s =
                map (\<lambda>p. case map_of (filter (\<lambda>(t, i). t \<in> set (phases ds))
                                         (zip (phase_type smp) (phase_index smp))) p of
                           None \<Rightarrow> absent_sentinel | Some i \<Rightarrow> i - start) (phases ds))
         \<and> (length (phase_type smp) = length (phase_index smp)
             \<and> list_all (\<lambda>i. int64 (i - start)) (phase_index smp)
             \<longrightarrow> (\<exists>s. get_item_without_stack hp ds h5 idx = Inr s))
         \<and> absent_sentinel = - 999999999"
proof -
  have flt: "map (\<lambda>p. case map_of (filter (\<lambda>(t, i). t \<in> set (phases ds))
                                 (zip (phase_type smp) (phase_index smp))) p of
                   None \<Rightarrow> absent_sentinel | Some i \<Rightarrow> i - start) (phases ds)
        = map (\<lambda>p. case map_of (zip (phase_type smp) (phase_index smp)) p of
                     None \<Rightarrow> absent_sentinel | Some i \<Rightarrow> i - start) (phases ds)"
    by (rule map_cong) (simp_all add: map_of_filter_keys)
  have part: "phase_type s = phases ds
            \<and> length (phase_index s) = length (phases ds)
            \<and> phase_index s =
                map (\<lambda>p. case map_of (zip (phase_type smp) (phase_index smp)) p of
                           None \<Rightarrow> absent_sentinel | Some i \<Rightarrow> i - start) (phases ds)
            \<and> phase_index s =
                map (\<lambda>p. case map_of (filter (\<lambda>(t, i). t \<in> set (phases ds))
                                         (zip (phase_type smp) (phase_index smp))) p of
                           None \<Rightarrow> absent_sentinel | Some i \<Rightarrow> i - start) (phases ds)"
    if "get_item_without_stack hp ds h5 idx = Inr s" for s
    unfolding flt
    unfolding get_item_result [OF assms that]
    by (simp add: normalize_waveform_def)
  have tot: "\<exists>s. get_item_without_stack hp ds h5 idx = Inr s"
    if "length (phase_type smp) = length (phase_index smp)
        \<and> list_all (\<lambda>i. int64 (i - start)) (phase_index smp)"
  proof -
    from that have l: "length (phase_type smp) \<le> length (phase_index smp)"
      and i: "list_all (\<lambda>i. int64 (i - start)) (phase_index smp)"
      by simp_all
    from get_item_ok [OF assms l i] show ?thesis by blast
  qed
  have sen: "absent_sentinel = - 999999999"
    by (simp add: absent_sentinel_def)
  show ?thesis
    using part tot sen by blast
qed

theorem phase_index_canonical_order_witness:
  "fetch hp_ex ds_ex h5_ex 3 = Inr (''e2'', ''A04'', rec_twice)
   \<and> attrs_phase_type rec_twice = [''Pn'', ''P'', ''S'', ''P'']
   \<and> attrs_phase_index rec_twice = [6, 5, 8, 7]
   \<and> phases ds_ex = [''P'', ''S'', ''PS'']
   \<and> map_sum id (\<lambda>s. (phase_type s, phase_index s))
        (get_item_without_stack hp_ex ds_ex h5_ex 3)
       = Inr ([''P'', ''S'', ''PS''], [5 - 1, 8 - 1, - 999999999])"
proof -
  let ?raw = "\<lparr> event_id = ''e2'', network = ''YL'', station_id = ''A04'',
                data = waveform rec_twice, phase_index = [6, 5, 8, 7],
                phase_type = [''Pn'', ''P'', ''S'', ''P''],
                start_index = Some 1, end_index = Some 9, label = [] \<rparr>"
  have f: "fetch hp_ex ds_ex h5_ex 3 = Inr (''e2'', ''A04'', rec_twice)"
    by (simp add: fetch_def ds_ex_def h5_ex_def hp_ex_def py_getitem_def)
  have p: "propose ds_ex (''e2'', ''A04'', rec_twice) = Inr (?raw, 1, 9)"
    by (simp add: propose_def ds_ex_def rec_twice_def)
  have t: "apply_transform ds_ex ?raw = Inr ?raw"
    by (simp add: apply_transform_def ds_ex_def)
  have w: "length (phase_type ?raw) = length (phase_index ?raw)
           \<and> list_all (\<lambda>i. int64 (i - 1)) (phase_index ?raw)"
    by (simp add: int64_def)
  note th = phase_index_canonical_order [OF f p t]
  from th w obtain s where g: "get_item_without_stack hp_ex ds_ex h5_ex 3 = Inr s"
    by blast
  with th have r: "phase_type s = phases ds_ex"
    "phase_index s =
       map (\<lambda>p. case map_of (zip (phase_type ?raw) (phase_index ?raw)) p of
                  None \<Rightarrow> absent_sentinel | Some i \<Rightarrow> i - 1) (phases ds_ex)"
    by blast+
  have x: "phase_index s = [5 - 1, 8 - 1, - 999999999]"
    unfolding r(2) by (simp add: ds_ex_def absent_sentinel_def)
  show ?thesis
    using f by (simp add: g r(1) x) (simp add: rec_twice_def ds_ex_def)
qed

section \<open>The transform hook\<close>

text \<open>
  C4 (amended). When a transform is configured, the cropping of the waveform and the
  remapping of the picks use the bounds proposed before the transform ran (\<open>start\<close> and
  \<open>stop\<close>, the values handed to it as \<open>start_index\<close> and \<open>end_index\<close>), applied to the
  data and the picks the transform returns. The \<open>start_index\<close> and \<open>end_index\<close> the
  transform returns stay in the sample and are not read.
\<close>

theorem hook_bounds_not_read:
  assumes "transform ds = Some f"
    and "fetch hp ds h5 idx = Inr x"
    and "propose ds x = Inr (smp0, start, stop)"
    and "f smp0 = Inr smp"
  shows "start_index smp0 = Some start
         \<and> end_index smp0 = Some stop
         \<and> (\<forall>s. get_item_without_stack hp ds h5 idx = Inr s \<longrightarrow>
               data s = map (\<lambda>ch. map (norm_fn hp ch) ch) (map (py_slice start stop) (data smp))
               \<and> phase_index s =
                   map (\<lambda>p. case map_of (zip (phase_type smp) (phase_index smp)) p of
                              None \<Rightarrow> absent_sentinel | Some i \<Rightarrow> i - start) (phases ds)
               \<and> start_index s = start_index smp
               \<and> end_index s = end_index smp)
         \<and> (length (phase_type smp) = length (phase_index smp)
             \<and> list_all (\<lambda>i. int64 (i - start)) (phase_index smp)
             \<longrightarrow> (\<exists>s. get_item_without_stack hp ds h5 idx = Inr s))"
proof -
  have t: "apply_transform ds smp0 = Inr smp"
    using assms(1,4) by (simp add: apply_transform_def)
  have b: "start_index smp0 = Some start \<and> end_index smp0 = Some stop"
    using assms(3)
    by (cases x) (auto simp: propose_def Let_def split: sum.splits)
  have part: "data s = map (\<lambda>ch. map (norm_fn hp ch) ch) (map (py_slice start stop) (data smp))
               \<and> phase_index s =
                   map (\<lambda>p. case map_of (zip (phase_type smp) (phase_index smp)) p of
                              None \<Rightarrow> absent_sentinel | Some i \<Rightarrow> i - start) (phases ds)
               \<and> start_index s = start_index smp
               \<and> end_index s = end_index smp"
    if "get_item_without_stack hp ds h5 idx = Inr s" for s
    unfolding get_item_result [OF assms(2,3) t that]
    by (simp add: normalize_waveform_def)
  have tot: "\<exists>s. get_item_without_stack hp ds h5 idx = Inr s"
    if "length (phase_type smp) = length (phase_index smp)
        \<and> list_all (\<lambda>i. int64 (i - start)) (phase_index smp)"
  proof -
    from that have l: "length (phase_type smp) \<le> length (phase_index smp)"
      and i: "list_all (\<lambda>i. int64 (i - start)) (phase_index smp)"
      by simp_all
    from get_item_ok [OF assms(2,3) t l i] show ?thesis by blast
  qed
  show ?thesis
    using b part tot by blast
qed

theorem hook_bounds_not_read_witness:
  "transform ds_hook = Some hook_jitter
   \<and> fetch hp_ex ds_hook h5_ex 0 = Inr (''e1'', ''A01'', rec_inside)
   \<and> map_sum id (\<lambda>s. (start_index s, end_index s, phase_index s, data s))
        (get_item_without_stack hp_ex ds_hook h5_ex 0)
       = Inr (Some 3, Some 11, [5 - 1, 8 - 1, - 999999999],
              [[2 / 9, 3 / 9, 4 / 9, 5 / 9, 6 / 9, 7 / 9, 8 / 9, 9 / 9],
               [0, 0, 0, 0, 2 / 4, 0, 0, - 4 / 4]])"
proof -
  let ?proposed = "\<lparr> event_id = ''e1'', network = ''YL'', station_id = ''A01'',
                 data = waveform rec_inside, phase_index = [5, 8],
                 phase_type = [''P'', ''S''],
                 start_index = Some 1, end_index = Some 9, label = [] \<rparr>"
  let ?hooked = "?proposed\<lparr>start_index := Some 3, end_index := Some 11\<rparr>"
  have h: "transform ds_hook = Some hook_jitter"
    by (simp add: ds_hook_def)
  have f: "fetch hp_ex ds_hook h5_ex 0 = Inr (''e1'', ''A01'', rec_inside)"
    by (simp add: fetch_def ds_hook_def ds_ex_def h5_ex_def hp_ex_def py_getitem_def)
  have p: "propose ds_hook (''e1'', ''A01'', rec_inside) = Inr (?proposed, 1, 9)"
    by (simp add: propose_def ds_hook_def ds_ex_def rec_inside_def)
  have j: "hook_jitter ?proposed = Inr ?hooked"
    by (simp add: hook_jitter_def)
  have w: "length (phase_type ?hooked) = length (phase_index ?hooked)
           \<and> list_all (\<lambda>i. int64 (i - 1)) (phase_index ?hooked)"
    by (simp add: int64_def)
  note th = hook_bounds_not_read [OF h f p j]
  from th w obtain s where g: "get_item_without_stack hp_ex ds_hook h5_ex 0 = Inr s"
    by blast
  with th have r:
      "data s = map (\<lambda>ch. map (norm_fn hp_ex ch) ch) (map (py_slice 1 9) (data ?hooked))"
      "phase_index s =
               map (\<lambda>p. case map_of (zip (phase_type ?hooked) (phase_index ?hooked)) p of
                          None \<Rightarrow> absent_sentinel | Some i \<Rightarrow> i - 1) (phases ds_hook)"
      "start_index s = start_index ?hooked" "end_index s = end_index ?hooked"
    by blast+
  have d: "data s = [[2 / 9, 3 / 9, 4 / 9, 5 / 9, 6 / 9, 7 / 9, 8 / 9, 9 / 9],
               [0, 0, 0, 0, 2 / 4, 0, 0, - 4 / 4]]"
    unfolding r(1) by (simp add: rec_inside_def hp_ex_def py_slice_def slice_bound_def)
  have x: "phase_index s = [5 - 1, 8 - 1, - 999999999]"
    unfolding r(2) by (simp add: ds_hook_def ds_ex_def absent_sentinel_def)
  show ?thesis
    using h f by (simp add: g r(3,4) d x)
qed

text \<open>
  C4, counterexample. The transform returns the window 3 to 11, and the picks at
  5 and 8 come out as 4 and 7, shifted by the proposed start 1, with the data cropped to
  1 to 9.
\<close>

theorem hook_bounds_counterexample:
  "map_sum id (\<lambda>s. (start_index s, end_index s, phase_index s, data s))
     (get_item_without_stack hp_ex ds_hook h5_ex 0)
   = Inr (Some 3, Some 11, [4, 7, - 999999999],
          [[2 / 9, 1 / 3, 4 / 9, 5 / 9, 2 / 3, 7 / 9, 8 / 9, 1], [0, 0, 0, 0, 1 / 2, 0, 0, - 1]])
   \<and> attrs_phase_index rec_inside = [5, 8]
   \<and> (4 :: int) \<noteq> 5 - 3"
  by (simp add: get_item_without_stack_def fetch_def propose_def apply_transform_def
      crop_and_label_def normalize_waveform_def torch_tensor_def int64_def absent_sentinel_def
      py_getitem_def py_slice_def slice_bound_def hook_jitter_def ds_hook_def ds_ex_def
      h5_ex_def rec_inside_def hp_ex_def)

section \<open>Windows that leave the waveform\<close>

text \<open>
  C5 (amended). For every record with a non-empty pick list, pick lists of one length
  and no transform configured, extraction does not fail with an \<open>IndexError\<close>, wherever
  the window lies: the crop is a slice, which raises nothing (the label and the
  normalisation are taken from the spec and raise nothing either). A sample is returned
  whenever the shifted picks fit 64 bits. With a start and a window length that are not
  negative, a returned channel holds the samples of the float32 channel from \<open>start\<close> on,
  at most \<open>window_length\<close> of them: a channel that ends before the window does is cut
  short, not padded.
\<close>

theorem window_outside_is_sliced:
  assumes "transform ds = None"
    and "fetch hp ds h5 idx = Inr (ev, st, rec)"
    and "attrs_phase_index rec \<noteq> []"
    and "length (attrs_phase_type rec) = length (attrs_phase_index rec)"
  shows "let start = Min (set (attrs_phase_index rec))
                       - first_arrival_index_in_final_window_if_no_shift ds;
             L = window_length_in_npts ds
         in get_item_without_stack hp ds h5 idx \<noteq> Inl IndexError
            \<and> (list_all (\<lambda>i. int64 (i - start)) (attrs_phase_index rec) \<longrightarrow>
                  (\<exists>s. get_item_without_stack hp ds h5 idx = Inr s))
            \<and> (\<forall>s. get_item_without_stack hp ds h5 idx = Inr s \<and> 0 \<le> start \<and> 0 \<le> L \<longrightarrow>
                  data s = map (\<lambda>ch. map (norm_fn hp ch) ch)
                             (map (\<lambda>ch. take (nat L) (drop (nat start) ch)) (waveform rec))
                  \<and> map length (data s)
                      = map (\<lambda>ch. min (nat L) (length ch - nat start)) (waveform rec))"
proof -
  let ?start = "Min (set (attrs_phase_index rec)) - first_arrival_index_in_final_window_if_no_shift ds"
  let ?L = "window_length_in_npts ds"
  let ?stop = "?start + ?L"
  let ?proposed = "\<lparr> event_id = ev, network = attrs_network rec, station_id = st,
                 data = waveform rec, phase_index = attrs_phase_index rec,
                 phase_type = attrs_phase_type rec,
                 start_index = Some ?start, end_index = Some ?stop, label = [] \<rparr>"
  have p: "propose ds (ev, st, rec) = Inr (?proposed, ?start, ?stop)"
    by (rule propose_ok [OF assms(3)])
  have t: "apply_transform ds ?proposed = Inr ?proposed"
    by (rule apply_transform_None [OF assms(1)])
  have l: "length (phase_type ?proposed) \<le> length (phase_index ?proposed)"
    using assms(4) by simp
  have "crop_and_label hp ds (?proposed, ?start, ?stop) \<noteq> Inl IndexError"
    by (rule crop_and_label_no_index_error [OF l])
  then have ne: "get_item_without_stack hp ds h5 idx \<noteq> Inl IndexError"
    by (simp add: get_item_without_stack_def assms(2) p t)
  have tot: "\<exists>s. get_item_without_stack hp ds h5 idx = Inr s"
    if "list_all (\<lambda>i. int64 (i - ?start)) (attrs_phase_index rec)"
  proof -
    from that have i: "list_all (\<lambda>i. int64 (i - ?start)) (phase_index ?proposed)"
      by simp
    from get_item_ok [OF assms(2) p t l i] show ?thesis by blast
  qed
  have part: "data s = map (\<lambda>ch. map (norm_fn hp ch) ch)
                             (map (\<lambda>ch. take (nat ?L) (drop (nat ?start) ch)) (waveform rec))
              \<and> map length (data s)
                  = map (\<lambda>ch. min (nat ?L) (length ch - nat ?start)) (waveform rec)"
    if "get_item_without_stack hp ds h5 idx = Inr s \<and> 0 \<le> ?start \<and> 0 \<le> ?L" for s
  proof -
    from that have g: "get_item_without_stack hp ds h5 idx = Inr s"
      and w: "0 \<le> ?start" "0 \<le> ?L"
      by simp_all
    have sl: "py_slice ?start ?stop ch = take (nat ?L) (drop (nat ?start) ch)"
      for ch :: "real list"
      by (rule py_slice_from_start [OF w])
    have d: "data s = map (\<lambda>ch. map (norm_fn hp ch) ch)
                        (map (\<lambda>ch. take (nat ?L) (drop (nat ?start) ch)) (waveform rec))"
      unfolding get_item_result [OF assms(2) p t g]
      by (simp add: normalize_waveform_def sl)
    then show ?thesis
      by (simp add: comp_def min.commute)
  qed
  show ?thesis
    unfolding Let_def using ne tot part by blast
qed

theorem window_outside_is_sliced_witness:
  "transform ds_ex = None
   \<and> fetch hp_ex ds_ex h5_ex 1 = Inr (''e1'', ''A02'', rec_short)
   \<and> attrs_phase_index rec_short = [5]
   \<and> first_arrival_index_in_final_window_if_no_shift ds_ex = 4
   \<and> window_length_in_npts ds_ex = 8
   \<and> map length (waveform rec_short) = [6]
   \<and> get_item_without_stack hp_ex ds_ex h5_ex 1 \<noteq> Inl IndexError
   \<and> map_sum id (\<lambda>s. (data s, map length (data s))) (get_item_without_stack hp_ex ds_ex h5_ex 1)
       = Inr ([[2 / 6, 3 / 6, 4 / 6, 5 / 6, 6 / 6]], [6 - 1])"
proof -
  have f: "fetch hp_ex ds_ex h5_ex 1 = Inr (''e1'', ''A02'', rec_short)"
    by (simp add: fetch_def ds_ex_def h5_ex_def hp_ex_def py_getitem_def)
  have t: "transform ds_ex = None"
    by (simp add: ds_ex_def)
  have n: "attrs_phase_index rec_short \<noteq> []"
    by (simp add: rec_short_def)
  have l: "length (attrs_phase_type rec_short) = length (attrs_phase_index rec_short)"
    by (simp add: rec_short_def)
  have b: "Min (set (attrs_phase_index rec_short))
             - first_arrival_index_in_final_window_if_no_shift ds_ex = 1"
    "window_length_in_npts ds_ex = 8"
    by (simp_all add: rec_short_def ds_ex_def)
  have i: "list_all (\<lambda>i. int64 (i - 1)) (attrs_phase_index rec_short)"
    by (simp add: rec_short_def int64_def)
  note th = window_outside_is_sliced [OF t f n l, unfolded Let_def b]
  from th have ne: "get_item_without_stack hp_ex ds_ex h5_ex 1 \<noteq> Inl IndexError"
    by blast
  from th i obtain s where g: "get_item_without_stack hp_ex ds_ex h5_ex 1 = Inr s"
    by blast
  with th have
    "data s = map (\<lambda>ch. map (norm_fn hp_ex ch) ch)
                (map (\<lambda>ch. take (nat 8) (drop (nat 1) ch)) (waveform rec_short))"
    by simp
  then have d: "data s = [[2 / 6, 3 / 6, 4 / 6, 5 / 6, 6 / 6]]"
    by (simp add: rec_short_def hp_ex_def)
  show ?thesis
    using t f ne by (simp add: g d) (simp add: rec_short_def ds_ex_def)
qed

text \<open>
  C5, counterexample. Entries 1 and 2 have 6 samples per channel; the window of entry 1
  runs from 1 to 9 and the window of entry 2 from -2 to 6. Both are returned, the first
  with 5 samples and the second with 2, and no error is raised.
\<close>

theorem window_outside_counterexample:
  "map_sum id (\<lambda>s. (start_index s, end_index s, data s))
     (get_item_without_stack hp_ex ds_ex h5_ex 1) = Inr (Some 1, Some 9, [[1 / 3, 1 / 2, 2 / 3, 5 / 6, 1]])
   \<and> map length (waveform rec_short) = [6]
   \<and> map_sum id (\<lambda>s. (start_index s, end_index s, data s))
     (get_item_without_stack hp_ex ds_ex h5_ex 2) = Inr (Some (- 2), Some 6, [[5 / 6, 1]])
   \<and> window_length_in_npts ds_ex = 8"
  by (simp add: get_item_without_stack_def fetch_def propose_def apply_transform_def
      crop_and_label_def normalize_waveform_def torch_tensor_def int64_def absent_sentinel_def
      py_getitem_def py_slice_def slice_bound_def ds_ex_def
      h5_ex_def rec_short_def rec_early_def hp_ex_def)

section \<open>Construction\<close>

text \<open>
  C6 (amended). Construction never fails: for every offset and every window length,
  also with the offset at or beyond the window length, \<open>__init__\<close> returns the dataset
  with both values stored as given.
\<close>

theorem init_accepts_any_offset:
  "\<exists>ds. Ai4epsDataset_init data_dir idx_to_id tr shape width window phs first_arrival ratio = Inr ds
        \<and> first_arrival_index_in_final_window_if_no_shift ds = first_arrival
        \<and> window_length_in_npts ds = window"
  by (simp add: Ai4epsDataset_init_def)

text \<open>
  C6, counterexample. An offset of 5000 with a window of 4800 samples is accepted.
\<close>

theorem init_offset_beyond_window_counterexample:
  "Ai4epsDataset_init [''d''] [(''e1'', ''A01'')] None Gaussian 120 4800 [''P'', ''S'', ''PS''] 5000 0
     = Inr \<lparr> transform = None, label_shape = Gaussian, label_width_in_npts = 120,
             window_length_in_npts = 4800, phases = [''P'', ''S'', ''PS''],
             first_arrival_index_in_final_window_if_no_shift = 5000,
             random_stack_two_waveforms_ratio = 0,
             h5py_path = [''d'', ''waveform.h5''],
             index_to_waveform_id = [(''e1'', ''A01'')] \<rparr>
   \<and> \<not> (5000 :: int) < 4800"
  by (simp add: Ai4epsDataset_init_def)

section \<open>Stacking\<close>

text \<open>
  C7. Stacking a sample with itself leaves the label unchanged: the label of
  \<open>stack_rand s s w\<close> is the label of \<open>s\<close>, since the curves are combined by the
  elementwise maximum; the normalisation that \<open>__getitem__\<close> applies afterwards does not
  touch it either.
\<close>

theorem stack_with_itself_keeps_label:
  "label (stack_rand s s w) = label s
   \<and> label (normalize_waveform hp (stack_rand s s w)) = label s"
  by (simp add: stack_rand_def normalize_waveform_def map2_map2_max_same)

section \<open>Indices outside the dataset\<close>

text \<open>
  C8 (amended). A request with an index at or beyond \<open>len\<close>, or below \<open>- len\<close>, fails with
  \<open>IndexError\<close>, in \<open>get_item_without_stack\<close> and in \<open>__getitem__\<close>; in particular the index
  \<open>len\<close> fails. An index from \<open>- len\<close> up to \<open>-1\<close> is read from the end: it gives what the
  index plus \<open>len\<close> gives.
\<close>

theorem index_out_of_range:
  "(len ds \<le> idx \<or> idx < - len ds \<longrightarrow>
      get_item_without_stack hp ds h5 idx = Inl IndexError
      \<and> getitem hp ds h5 u random_idx idx = Inl IndexError)
   \<and> getitem hp ds h5 u random_idx (len ds) = Inl IndexError
   \<and> (- len ds \<le> idx \<and> idx < 0 \<longrightarrow>
        get_item_without_stack hp ds h5 idx = get_item_without_stack hp ds h5 (idx + len ds)
        \<and> getitem hp ds h5 u random_idx idx = getitem hp ds h5 u random_idx (idx + len ds))"
proof -
  have out: "get_item_without_stack hp ds h5 i = Inl IndexError
             \<and> getitem hp ds h5 u random_idx i = Inl IndexError"
    if "len ds \<le> i \<or> i < - len ds" for i
  proof -
    from that have "py_getitem (index_to_waveform_id ds) i = Inl IndexError"
      unfolding len_def by (rule py_getitem_out_of_range)
    then have "get_item_without_stack hp ds h5 i = Inl IndexError"
      by (simp add: get_item_without_stack_def fetch_def)
    then show ?thesis by (simp add: getitem_def)
  qed
  have neg: "get_item_without_stack hp ds h5 idx = get_item_without_stack hp ds h5 (idx + len ds)
             \<and> getitem hp ds h5 u random_idx idx = getitem hp ds h5 u random_idx (idx + len ds)"
    if "- len ds \<le> idx \<and> idx < 0"
  proof -
    from that have "py_getitem (index_to_waveform_id ds) idx
                    = py_getitem (index_to_waveform_id ds) (idx + len ds)"
      unfolding len_def by (simp add: py_getitem_negative)
    then have "get_item_without_stack hp ds h5 idx = get_item_without_stack hp ds h5 (idx + len ds)"
      by (simp add: get_item_without_stack_def fetch_def)
    then show ?thesis by (simp add: getitem_def)
  qed
  from out [of idx] out [of "len ds"] neg show ?thesis by simp
qed

theorem index_out_of_range_witness:
  "len ds_ex = 4
   \<and> getitem hp_ex ds_ex h5_ex (3 / 4) 0 4 = Inl IndexError
   \<and> getitem hp_ex ds_ex h5_ex (3 / 4) 0 (- 5) = Inl IndexError
   \<and> getitem hp_ex ds_ex h5_ex (3 / 4) 0 (- 1) = getitem hp_ex ds_ex h5_ex (3 / 4) 0 3"
proof -
  have l: "len ds_ex = 4"
    by (simp add: len_def ds_ex_def)
  from index_out_of_range [of ds_ex 4 hp_ex h5_ex "3 / 4" 0]
       index_out_of_range [of ds_ex "- 5" hp_ex h5_ex "3 / 4" 0]
       index_out_of_range [of ds_ex "- 1" hp_ex h5_ex "3 / 4" 0]
  show ?thesis by (simp add: l)
qed

text \<open>
  C8, counterexample. The dataset has 4 entries; the index -1 is outside 0 to 3 and
  returns the sample of the last entry.
\<close>

theorem negative_index_counterexample:
  "len ds_ex = 4
   \<and> map_sum id (\<lambda>s. (event_id s, station_id s, phase_index s))
        (getitem hp_ex ds_ex h5_ex (3 / 4) 0 (- 1))
       = Inr (''e2'', ''A04'', [4, 7, - 999999999])"
  by (simp add: len_def getitem_def get_item_without_stack_def fetch_def propose_def
      apply_transform_def crop_and_label_def normalize_waveform_def torch_tensor_def int64_def
      absent_sentinel_def py_getitem_def ds_ex_def h5_ex_def rec_twice_def)

section \<open>The splitter\<close>

text \<open>
  C9. For every pick table and every seed the generator accepts (it shuffles the \<open>n\<close>
  unique keys by a permutation), with a ratio list of at least two entries whose
  boundaries \<open>i1 = int(ratio[0] * n)\<close> and \<open>i2 = int((ratio[0] + ratio[1]) * n)\<close> satisfy
  \<open>0 \<le> i1 \<le> i2\<close>: the splitter returns three lists without a repeated or shared key
  whose union is the set of the (event id, station id) pairs of the table; their sizes
  are \<open>i1\<close>, \<open>i2 - i1\<close> and the remainder \<open>n - i2\<close> (each boundary capped at \<open>n\<close>); and the
  result depends on the table only through its key columns, so the same seed and the
  same input give the same partition.
\<close>

theorem split_partitions_unique_keys:
  assumes n: "n = length (drop_duplicates (map pick_key phase_picks))"
    and rng: "rng_order seed n = Inr order"
    and perm: "mset order = mset [0..<n]"
    and r0: "py_getitem ratio 0 = Inr r0"
    and r1: "py_getitem ratio 1 = Inr r1"
    and i1: "float_int fl (float_mul_int fl r0 (int n)) = Inr i1"
    and i2: "float_int fl (float_mul_int fl (float_add fl r0 r1) (int n)) = Inr i2"
    and lo: "0 \<le> i1"
    and hi: "i1 \<le> i2"
  shows "\<exists>train test val.
           split_train_test_val_for_ai4eps rng_order fl phase_picks ratio seed
             = Inr (train, test, val)
           \<and> distinct (train @ test @ val)
           \<and> set train \<inter> set test = {} \<and> set train \<inter> set val = {} \<and> set test \<inter> set val = {}
           \<and> set train \<union> set test \<union> set val = set (map pick_key phase_picks)
           \<and> int (length train) = min i1 (int n)
           \<and> int (length test) = min i2 (int n) - min i1 (int n)
           \<and> int (length val) = int n - min i2 (int n)
           \<and> (\<forall>picks'. map pick_key picks' = map pick_key phase_picks \<longrightarrow>
                  split_train_test_val_for_ai4eps rng_order fl picks' ratio seed
                    = split_train_test_val_for_ai4eps rng_order fl phase_picks ratio seed)"
proof -
  let ?pairs = "drop_duplicates (map pick_key phase_picks)"
  let ?shuffled = "map (\<lambda>i. ?pairs ! i) order"
  let ?a = "min (nat i1) (length ?shuffled)"
  let ?b = "min (nat i2) (length ?shuffled)"
  let ?train = "take ?a ?shuffled"
  let ?test = "take (?b - ?a) (drop ?a ?shuffled)"
  let ?val = "drop ?b ?shuffled"
  have m: "mset ?shuffled = mset ?pairs"
    using n perm by (simp only: mset_shuffled)
  have len: "length ?shuffled = n"
    using m n by (metis size_mset)
  have dist: "distinct ?shuffled"
    using m distinct_drop_duplicates [of "map pick_key phase_picks"]
    by (metis mset_eq_imp_distinct_iff)
  have st: "set ?shuffled = set (map pick_key phase_picks)"
    using m set_drop_duplicates [of "map pick_key phase_picks"]
    by (metis mset_eq_setD)
  have ab: "?a \<le> ?b"
    using lo hi by auto
  have app: "?train @ ?test @ ?val = ?shuffled"
    by (rule three_parts_append [OF ab])
  have lr: "length order = n"
    using len by simp
  have run: "split_train_test_val_for_ai4eps rng_order fl phase_picks ratio seed
             = Inr (?train, ?test, ?val)"
    using rng r0 r1 i1 i2
    by (simp add: split_train_test_val_for_ai4eps_def Let_def n [symmetric] lr
        np_split_parts [OF lo hi])
  have d3: "distinct (?train @ ?test @ ?val)"
    by (simp only: app dist)
  then have dj: "set ?train \<inter> set ?test = {} \<and> set ?train \<inter> set ?val = {}
                 \<and> set ?test \<inter> set ?val = {}"
    by auto
  have un: "set ?train \<union> set ?test \<union> set ?val = set (map pick_key phase_picks)"
  proof -
    have "set ?train \<union> set ?test \<union> set ?val = set (?train @ ?test @ ?val)"
      by auto
    then show ?thesis by (simp only: app st)
  qed
  have l1: "int (length ?train) = min i1 (int n)"
    using lo len by auto
  have l2: "int (length ?test) = min i2 (int n) - min i1 (int n)"
    using lo hi len by auto
  have l3: "int (length ?val) = int n - min i2 (int n)"
    using lo hi len by auto
  have det: "\<forall>picks'. map pick_key picks' = map pick_key phase_picks \<longrightarrow>
                  split_train_test_val_for_ai4eps rng_order fl picks' ratio seed
                    = split_train_test_val_for_ai4eps rng_order fl phase_picks ratio seed"
    by (simp add: split_train_test_val_for_ai4eps_def)
  show ?thesis
    using run d3 dj un l1 l2 l3 det by blast
qed

theorem split_partitions_unique_keys_witness:
  "length (drop_duplicates (map pick_key picks_ex)) = 4
   \<and> rng_ex 3407 4 = Inr [3, 2, 1, 0]
   \<and> float_int fl_ex (float_mul_int fl_ex (1 / 2) 4) = Inr 2
   \<and> float_int fl_ex (float_mul_int fl_ex (float_add fl_ex (1 / 2) (1 / 4)) 4) = Inr 3
   \<and> (\<exists>train test val.
          split_train_test_val_for_ai4eps rng_ex fl_ex picks_ex [1 / 2, 1 / 4, 1 / 4] 3407
            = Inr (train, test, val)
          \<and> distinct (train @ test @ val)
          \<and> set train \<union> set test \<union> set val
              = {(''e1'', ''A01''), (''e1'', ''A02''), (''e2'', ''A03''), (''e2'', ''A04'')}
          \<and> length train = 2 \<and> length test = 1 \<and> length val = 1)"
proof -
  have n: "4 = length (drop_duplicates (map pick_key picks_ex))"
    by (simp add: drop_duplicates_def pick_key_def picks_ex_def)
  have g: "rng_ex 3407 4 = Inr [3, 2, 1, 0]"
    by (simp add: rng_ex_def upt_conv_Cons)
  have e: "rev [0..<4] = [3, 2, 1, 0 :: nat]"
    by (simp add: upt_conv_Cons)
  have m: "mset [3, 2, 1, 0 :: nat] = mset [0..<4]"
    unfolding e [symmetric] by simp
  have r0: "py_getitem [1 / 2, 1 / 4, 1 / 4 :: real] 0 = Inr (1 / 2)"
    by (simp add: py_getitem_def)
  have r1: "py_getitem [1 / 2, 1 / 4, 1 / 4 :: real] 1 = Inr (1 / 4)"
    by (simp add: py_getitem_def)
  have i1: "float_int fl_ex (float_mul_int fl_ex (1 / 2) (int 4)) = Inr 2"
    by (simp add: fl_ex_def)
  have i2: "float_int fl_ex (float_mul_int fl_ex (float_add fl_ex (1 / 2) (1 / 4)) (int 4)) = Inr 3"
    by (simp add: fl_ex_def)
  have k: "set (map pick_key picks_ex)
           = {(''e1'', ''A01''), (''e1'', ''A02''), (''e2'', ''A03''), (''e2'', ''A04'')}"
    by (simp add: pick_key_def picks_ex_def)
  have b1: "(0 :: int) \<le> 2" and b2: "(2 :: int) \<le> 3"
    by simp_all
  from split_partitions_unique_keys
         [where rng_order = rng_ex and seed = 3407 and n = 4 and fl = fl_ex
            and phase_picks = picks_ex and ratio = "[1 / 2, 1 / 4, 1 / 4]"
            and ?r0.0 = "1 / 2" and ?r1.0 = "1 / 4" and ?i1.0 = 2 and ?i2.0 = 3,
          OF n g m r0 r1 i1 i2 b1 b2]
  obtain train test val where
    a: "split_train_test_val_for_ai4eps rng_ex fl_ex picks_ex [1 / 2, 1 / 4, 1 / 4] 3407
          = Inr (train, test, val)"
      "distinct (train @ test @ val)"
      "set train \<union> set test \<union> set val = set (map pick_key picks_ex)"
      "int (length train) = min 2 (int 4)"
      "int (length test) = min 3 (int 4) - min 2 (int 4)"
      "int (length val) = int 4 - min 3 (int 4)"
    by blast
  have l1: "length train = 2" and l2: "length test = 1" and l3: "length val = 1"
    using a(4,5,6) by simp_all
  have u: "set train \<union> set test \<union> set val
           = {(''e1'', ''A01''), (''e1'', ''A02''), (''e2'', ''A03''), (''e2'', ''A04'')}"
    using a(3) k by (simp only:)
  have "\<exists>train test val.
          split_train_test_val_for_ai4eps rng_ex fl_ex picks_ex [1 / 2, 1 / 4, 1 / 4] 3407
            = Inr (train, test, val)
          \<and> distinct (train @ test @ val)
          \<and> set train \<union> set test \<union> set val
              = {(''e1'', ''A01''), (''e1'', ''A02''), (''e2'', ''A03''), (''e2'', ''A04'')}
          \<and> length train = 2 \<and> length test = 1 \<and> length val = 1"
  proof (intro exI conjI)
    show "split_train_test_val_for_ai4eps rng_ex fl_ex picks_ex [1 / 2, 1 / 4, 1 / 4] 3407
            = Inr (train, test, val)"
      by (rule a(1))
    show "distinct (train @ test @ val)" by (rule a(2))
    show "set train \<union> set test \<union> set val
              = {(''e1'', ''A01''), (''e1'', ''A02''), (''e2'', ''A03''), (''e2'', ''A04'')}"
      by (rule u)
    show "length train = 2" by (rule l1)
    show "length test = 1" by (rule l2)
    show "length val = 1" by (rule l3)
  qed
  with n [symmetric] g i1 i2 show ?thesis
    by simp
qed

section \<open>Picks that repeat a phase\<close>

text \<open>
  C10. When the picks hold a canonical phase more than once, the entry for that phase is
  taken from its first occurrence: if position \<open>k\<close> is the first one in \<open>phase_type\<close> that
  holds the canonical phase number \<open>j\<close>, entry \<open>j\<close> of every returned \<open>phase_index\<close> is pick
  \<open>k\<close>'s index minus the window start. A sample is returned whenever the two pick lists
  have one length and the shifted picks fit 64 bits.
\<close>

theorem first_pick_wins:
  assumes "fetch hp ds h5 idx = Inr x"
    and "propose ds x = Inr (smp0, start, stop)"
    and "apply_transform ds smp0 = Inr smp"
    and "j < length (phases ds)"
    and "k < length (phase_type smp)"
    and "phase_type smp ! k = phases ds ! j"
    and "\<forall>k'<k. phase_type smp ! k' \<noteq> phases ds ! j"
  shows "(\<forall>s. get_item_without_stack hp ds h5 idx = Inr s \<longrightarrow>
            phase_index s ! j = phase_index smp ! k - start)
         \<and> (length (phase_type smp) = length (phase_index smp)
             \<and> list_all (\<lambda>i. int64 (i - start)) (phase_index smp)
             \<longrightarrow> (\<exists>s. get_item_without_stack hp ds h5 idx = Inr s))"
proof -
  have ix: "py_list_index (phase_type smp) (phases ds ! j) = Inr k"
    by (rule py_list_index_unique [OF assms(5,6,7)])
  have mem: "phases ds ! j \<in> set (phases ds)"
    using assms(4) by simp
  have part: "phase_index s ! j = phase_index smp ! k - start"
    if g: "get_item_without_stack hp ds h5 idx = Inr s" for s
  proof -
    have kl: "k < length (phase_index smp)"
      by (rule get_item_found_in_range [OF assms(1,2,3) g mem ix])
    have "map_of (zip (phase_type smp) (phase_index smp)) (phases ds ! j)
          = Some (phase_index smp ! k)"
      by (rule py_list_index_map_of [OF ix kl])
    then show ?thesis
      unfolding get_item_result [OF assms(1,2,3) g]
      using assms(4) by (simp add: normalize_waveform_def)
  qed
  have tot: "\<exists>s. get_item_without_stack hp ds h5 idx = Inr s"
    if "length (phase_type smp) = length (phase_index smp)
        \<and> list_all (\<lambda>i. int64 (i - start)) (phase_index smp)"
  proof -
    from that have l: "length (phase_type smp) \<le> length (phase_index smp)"
      and i: "list_all (\<lambda>i. int64 (i - start)) (phase_index smp)"
      by simp_all
    from get_item_ok [OF assms(1,2,3) l i] show ?thesis by blast
  qed
  show ?thesis
    using part tot by blast
qed

theorem first_pick_wins_witness:
  "fetch hp_ex ds_ex h5_ex 3 = Inr (''e2'', ''A04'', rec_twice)
   \<and> attrs_phase_type rec_twice = [''Pn'', ''P'', ''S'', ''P'']
   \<and> attrs_phase_index rec_twice = [6, 5, 8, 7]
   \<and> phases ds_ex ! 0 = ''P''
   \<and> map_sum id (\<lambda>s. phase_index s ! 0) (get_item_without_stack hp_ex ds_ex h5_ex 3)
       = Inr (5 - 1)"
proof -
  let ?raw = "\<lparr> event_id = ''e2'', network = ''YL'', station_id = ''A04'',
                data = waveform rec_twice, phase_index = [6, 5, 8, 7],
                phase_type = [''Pn'', ''P'', ''S'', ''P''],
                start_index = Some 1, end_index = Some 9, label = [] \<rparr>"
  have f: "fetch hp_ex ds_ex h5_ex 3 = Inr (''e2'', ''A04'', rec_twice)"
    by (simp add: fetch_def ds_ex_def h5_ex_def hp_ex_def py_getitem_def)
  have p: "propose ds_ex (''e2'', ''A04'', rec_twice) = Inr (?raw, 1, 9)"
    by (simp add: propose_def ds_ex_def rec_twice_def)
  have t: "apply_transform ds_ex ?raw = Inr ?raw"
    by (simp add: apply_transform_def ds_ex_def)
  have w: "length (phase_type ?raw) = length (phase_index ?raw)
           \<and> list_all (\<lambda>i. int64 (i - 1)) (phase_index ?raw)"
    by (simp add: int64_def)
  have j: "0 < length (phases ds_ex)"
    by (simp add: ds_ex_def)
  have k: "1 < length (phase_type ?raw)"
    by simp
  have e: "phase_type ?raw ! 1 = phases ds_ex ! 0"
    by (simp add: ds_ex_def)
  have n: "\<forall>k'<1. phase_type ?raw ! k' \<noteq> phases ds_ex ! 0"
    by (simp add: ds_ex_def)
  note th = first_pick_wins [OF f p t j k e n]
  from th w obtain s where g: "get_item_without_stack hp_ex ds_ex h5_ex 3 = Inr s"
    by blast
  with th have "phase_index s ! 0 = phase_index ?raw ! 1 - 1"
    by blast
  then have x: "phase_index s ! 0 = 5 - 1"
    by simp
  show ?thesis
    using f by (simp add: g x) (simp add: rec_twice_def ds_ex_def)
qed

end
